theory Spec2Isabelle
  imports Complex_Main "HOL-Library.Sublist" "HOL-Library.Multiset"
begin

section \<open>Shared state store (adaptiveAgent/state/state.ts)\<close>

text \<open>
  The keys of the \<open>State\<close> interface. \<open>GeminiClient\<close> is the key \<open>geminiClient\<close>.
\<close>

datatype key =
    IsSupported
  | IsAgentEnabled
  | IsMicOpen
  | IsAgentSpeaking
  | IsAgentThinking
  | GeminiClient
  | AgentButtonElement
  | MicButtonElement
  | LastError

text \<open>
  The values a field of the state can hold at run time. Objects (the client, the two
  button elements) are references: \<open>!==\<close> compares them by identity, which is the
  equality of \<open>VRef\<close>; booleans, strings, \<open>null\<close> and \<open>undefined\<close> compare by value.
\<close>

datatype val = VUndefined | VNull | VBool bool | VStr string | VRef nat

type_synonym State = "key \<Rightarrow> val"

text \<open>
  A \<open>Partial<State>\<close> object: its own enumerable properties in enumeration order.
\<close>

type_synonym Partial = "(key \<times> val) list"

definition defaultState :: State where
  "defaultState k =
     (case k of
        IsSupported \<Rightarrow> VBool False
      | IsAgentEnabled \<Rightarrow> VBool False
      | IsMicOpen \<Rightarrow> VBool False
      | IsAgentSpeaking \<Rightarrow> VBool False
      | IsAgentThinking \<Rightarrow> VBool False
      | GeminiClient \<Rightarrow> VNull
      | AgentButtonElement \<Rightarrow> VNull
      | MicButtonElement \<Rightarrow> VNull
      | LastError \<Rightarrow> VNull)"

text \<open>
  The module: the variable \<open>_state\<close> and, for the emitter, the snapshots handed to the
  \<open>stateChanged\<close> listeners so far, oldest first.
\<close>

record store =
  state :: State
  emitted :: "State list"

definition initialStore :: store where
  "initialStore = \<lparr>state = defaultState, emitted = []\<rparr>"

text \<open>The object spread \<open>{ ..._state, ...updates }\<close>: each property of \<open>updates\<close> is
  written over the copy of \<open>_state\<close>, in order.\<close>

fun spread :: "State \<Rightarrow> Partial \<Rightarrow> State" where
  "spread s [] = s"
| "spread s ((k, v) # rest) = spread (s(k := v)) rest"

definition getState :: "store \<Rightarrow> State" where
  "getState st = state st"

text \<open>The \<open>for (const key in updates)\<close> loop with its \<open>break\<close>.\<close>

fun hasChanged :: "State \<Rightarrow> State \<Rightarrow> key list \<Rightarrow> bool" where
  "hasChanged previousState newState [] = False"
| "hasChanged previousState newState (k # ks) =
     (if previousState k \<noteq> newState k then True
      else hasChanged previousState newState ks)"

definition updateState :: "Partial \<Rightarrow> store \<Rightarrow> store" where
  "updateState updates st =
     (let previousState = state st;
          newState = spread (state st) updates
      in if hasChanged previousState newState (map fst updates)
         then \<lparr>state = newState, emitted = emitted st @ [newState]\<rparr>
         else \<lparr>state = newState, emitted = emitted st\<rparr>)"

definition notifies :: "Partial \<Rightarrow> store \<Rightarrow> bool" where
  "notifies updates st = (emitted (updateState updates st) \<noteq> emitted st)"

text \<open>A sequence of \<open>updateState\<close> calls, first call first.\<close>

fun updateStates :: "Partial list \<Rightarrow> store \<Rightarrow> store" where
  "updateStates [] st = st"
| "updateStates (u # us) st = updateStates us (updateState u st)"

subsection \<open>The specification's merge\<close>

text \<open>
  The last-write-wins shallow merge, read field by field: the value of a field is the one
  the last partial naming that field gives it, and the default when no partial names it.
\<close>

definition writes :: "Partial list \<Rightarrow> key \<Rightarrow> val list" where
  "writes partials k = map snd (filter (\<lambda>kv. fst kv = k) (concat partials))"

definition lastWriteWins :: "State \<Rightarrow> Partial list \<Rightarrow> State" where
  "lastWriteWins defaults partials k =
     (case rev (writes partials k) of [] \<Rightarrow> defaults k | v # _ \<Rightarrow> v)"

section \<open>Promises and call outcomes\<close>

text \<open>
  What the caller of an \<open>async\<close> function or of a function returning a promise gets:
  the promise is still pending when the call returns, or it is already settled.
\<close>

datatype 'a promise = Pending | Resolved 'a | Rejected string

text \<open>How a call ends: it returns, or it throws the given error.\<close>

datatype 'e outcome = Returns | Throws 'e

section \<open>Speech capture (services/speechToTextService.ts)\<close>

text \<open>
  The methods of the class carry the prefix \<open>stt_\<close>, and its private handlers
  \<open>_onStart\<close>, \<open>_onResult\<close>, \<open>_onError\<close>, \<open>_onEnd\<close> lose their underscore.
  Strings are lists of 8-bit characters, one for each code unit of the source's strings.

  The fields of \<open>SpeechToTextService\<close>. \<open>recognition\<close> is whether the recognizer object
  is non-null; \<open>stopPromiseResolver\<close> and \<open>stopPromiseRejecter\<close> are whether the handler
  is non-null. \<open>settlements\<close> logs every call of a stored resolver or rejecter, that is,
  how the promises handed out by \<open>stop()\<close> were settled later on.
\<close>

datatype settlement = Resolve string | Reject string

record SpeechToTextService =
  recognition :: bool
  isListening :: bool
  finalTranscript :: string
  stopPromiseResolver :: bool
  stopPromiseRejecter :: bool
  settlements :: "settlement list"

text \<open>The constructor; \<open>supported\<close> says whether the browser has the recognition API.\<close>

definition newSpeechToTextService :: "bool \<Rightarrow> SpeechToTextService" where
  "newSpeechToTextService supported =
     \<lparr>recognition = supported, isListening = False, finalTranscript = [],
      stopPromiseResolver = False, stopPromiseRejecter = False, settlements = []\<rparr>"

text \<open>
  The class has no member \<open>events\<close>: its declaration is inside a comment and nothing
  assigns it, so \<open>this.events\<close> reads \<open>undefined\<close> (here \<open>None\<close>), and
  \<open>this.events.emit(...)\<close> throws a \<open>TypeError\<close> before any listener is called.
  \<open>emit\<close> returns the events delivered and how the call ends.
\<close>

definition stt_events :: "SpeechToTextService \<Rightarrow> unit option" where
  "stt_events this = None"

definition typeError :: string where
  "typeError = ''TypeError: Cannot read properties of undefined (reading emit)''"

definition stt_emit :: "SpeechToTextService \<Rightarrow> string \<Rightarrow> string \<Rightarrow> (string \<times> string) list \<times> string outcome" where
  "stt_emit this name payload =
     (case stt_events this of
        None \<Rightarrow> ([], Throws typeError)
      | Some _ \<Rightarrow> ([(name, payload)], Returns))"

definition rejectPendingStopPromise :: "string \<Rightarrow> SpeechToTextService \<Rightarrow> SpeechToTextService" where
  "rejectPendingStopPromise reason this =
     (if stopPromiseRejecter this
      then this\<lparr>settlements := settlements this @ [Reject reason],
                stopPromiseResolver := False, stopPromiseRejecter := False\<rparr>
      else this)"

text \<open>
  \<open>String.prototype.trim\<close> on the white space and line terminators that a single 8-bit
  character can be: space, TAB, LF, VT, FF, CR and the no-break space U+00A0.
\<close>

definition whiteSpace :: "char \<Rightarrow> bool" where
  "whiteSpace c =
     (c \<in> set [CHR '' '', CHR 0x09, CHR 0x0A, CHR 0x0B, CHR 0x0C, CHR 0x0D, CHR 0xA0])"

definition trim :: "string \<Rightarrow> string" where
  "trim s = rev (dropWhile whiteSpace (rev (dropWhile whiteSpace s)))"

definition stt_onStart :: "SpeechToTextService \<Rightarrow> SpeechToTextService" where
  "stt_onStart this = this\<lparr>isListening := True\<rparr>"

definition stt_onError :: "string \<Rightarrow> SpeechToTextService \<Rightarrow> SpeechToTextService \<times> (string \<times> string) list \<times> string outcome" where
  "stt_onError err this =
     (let this1 = rejectPendingStopPromise err (this\<lparr>isListening := False\<rparr>)
      in (this1, stt_emit this1 ''error'' err))"

text \<open>
  A \<open>SpeechRecognitionEvent\<close>: \<open>resultIndex\<close> and, for each result, \<open>isFinal\<close> and the
  transcript of its first alternative.
\<close>

record SpeechRecognitionEvent =
  resultIndex :: nat
  results :: "(bool \<times> string) list"

text \<open>The \<open>for\<close> loop of \<open>_onResult\<close> over the results from \<open>resultIndex\<close> on, threading
  \<open>finalTranscript\<close> and \<open>interim\<close>.\<close>

fun onResultLoop :: "(bool \<times> string) list \<Rightarrow> string \<Rightarrow> string \<Rightarrow> string \<times> string" where
  "onResultLoop [] final interim = (final, interim)"
| "onResultLoop ((isFinal, transcript) # rest) final interim =
     (if isFinal then onResultLoop rest (final @ trim transcript @ '' '') interim
      else onResultLoop rest final (interim @ transcript))"

definition stt_onResult :: "SpeechRecognitionEvent \<Rightarrow> SpeechToTextService \<Rightarrow> SpeechToTextService \<times> (string \<times> string) list \<times> string outcome" where
  "stt_onResult event this =
     (case onResultLoop (drop (resultIndex event) (results event)) (finalTranscript this) [] of
        (final, interim) \<Rightarrow>
          (let this1 = this\<lparr>finalTranscript := final\<rparr>
           in (this1, stt_emit this1 ''interimResult'' interim)))"

definition stt_onEnd :: "SpeechToTextService \<Rightarrow> SpeechToTextService" where
  "stt_onEnd this =
     (let this1 = this\<lparr>isListening := False\<rparr>;
          this2 =
            (if stopPromiseResolver this1
             then this1\<lparr>settlements := settlements this1 @ [Resolve (trim (finalTranscript this1))]\<rparr>
             else if stopPromiseRejecter this1
             then this1\<lparr>settlements := settlements this1
                          @ [Reject ''Recognition ended unexpectedly after stop() call.'']\<rparr>
             else this1)
      in this2\<lparr>stopPromiseResolver := False, stopPromiseRejecter := False\<rparr>)"

text \<open>
  \<open>start()\<close>. \<open>startThrows\<close> is the error \<open>recognition.start()\<close> throws, if it throws.
  The recognizer reports the start later, through \<open>onStart\<close>.
\<close>

definition stt_start :: "string option \<Rightarrow> SpeechToTextService \<Rightarrow> SpeechToTextService \<times> string outcome" where
  "stt_start startThrows this =
     (if \<not> recognition this then (this, Returns)
      else if isListening this then (this, Returns)
      else
        (let this1 = rejectPendingStopPromise
                       ''New recognition started before previous stop completed.''
                       (this\<lparr>finalTranscript := []\<rparr>)
         in case startThrows of
              None \<Rightarrow> (this1, Returns)
            | Some error \<Rightarrow>
                (case stt_onError ''start-failed'' this1 of (this2, _, out) \<Rightarrow> (this2, out))))"

text \<open>
  \<open>stop()\<close>: the service afterwards and the promise as the caller receives it.
  \<open>stopThrows\<close> is the error \<open>recognition.stop()\<close> throws, if it throws. A pending promise
  is settled by a later \<open>onEnd\<close>, \<open>onError\<close> or \<open>abort\<close>, logged in \<open>settlements\<close>.
\<close>

definition stt_stop :: "string option \<Rightarrow> SpeechToTextService \<Rightarrow> SpeechToTextService \<times> string promise" where
  "stt_stop stopThrows this =
     (if \<not> recognition this then (this, Rejected ''SpeechRecognition not supported.'')
      else if \<not> isListening this then (this, Resolved (finalTranscript this))
      else
        (let this1 = this\<lparr>stopPromiseResolver := True, stopPromiseRejecter := True\<rparr>
         in case stopThrows of
              None \<Rightarrow> (this1, Pending)
            | Some error \<Rightarrow> (rejectPendingStopPromise error this1, Rejected error)))"

text \<open>\<open>abort()\<close>; \<open>abortThrows\<close> is the error \<open>recognition.abort()\<close> throws, if it throws.\<close>

definition stt_abort :: "string option \<Rightarrow> SpeechToTextService \<Rightarrow> SpeechToTextService" where
  "stt_abort abortThrows this =
     (if \<not> recognition this then this
      else if \<not> isListening this then this
      else case abortThrows of
             None \<Rightarrow> rejectPendingStopPromise ''Recognition aborted by user.'' this
           | Some error \<Rightarrow> rejectPendingStopPromise error this)"

text \<open>
  A completed listen session on a supported service: \<open>start()\<close>, the recognizer's start
  event, one result event with the final fragment \<open>hello\<close>, \<open>stop()\<close>, and the
  recognizer's end event, which resolves the promise of \<open>stop()\<close>.
\<close>

definition completedSession :: SpeechToTextService where
  "completedSession =
     stt_onEnd (fst (stt_stop None
       (fst (stt_onResult \<lparr>resultIndex = 0, results = [(True, ''hello'')]\<rparr>
         (stt_onStart (fst (stt_start None (newSpeechToTextService True))))))))"

section \<open>Regular expressions as a backtracking matcher\<close>

text \<open>
  \<open>splitByPunctuation\<close> builds a \<open>RegExp\<close> from a string. The syntax tree of the
  constructs that string uses: character classes, the dot, sequence, alternation (the left
  branch is tried first), \<open>?\<close>, and the greedy repetitions \<open>*\<close>, \<open>+\<close>, \<open>{m,n}\<close> as
  \<open>Rep\<close> with a lower bound and an optional upper bound. Capturing and non-capturing groups
  match alike and are not distinguished.
\<close>

datatype regex =
    Chars "char list"
  | NotChars "char list"
  | Dot
  | Seq regex regex
  | Alt regex regex
  | Opt regex
  | Rep nat "nat option" regex

abbreviation Star :: "regex \<Rightarrow> regex" where
  "Star r \<equiv> Rep 0 None r"

abbreviation Plus :: "regex \<Rightarrow> regex" where
  "Plus r \<equiv> Rep 1 None r"

text \<open>
  A matcher maps the rest of the input to the rests left by every way of matching at its
  start, in the order a backtracking engine tries them; the first is the match taken.
\<close>

type_synonym matcher = "string \<Rightarrow> string list"

text \<open>\<open>exactly n m\<close>: the \<open>n\<close> iterations a lower bound demands.\<close>

primrec exactly :: "nat \<Rightarrow> matcher \<Rightarrow> matcher" where
  "exactly 0 m s = [s]"
| "exactly (Suc n) m s = concat (map (exactly n m) (m s))"

text \<open>
  \<open>further n m\<close>: up to \<open>n\<close> further iterations, greedily: one more iteration is tried
  before stopping. As in ECMAScript, a further iteration that consumes nothing fails.
\<close>

primrec further :: "nat \<Rightarrow> matcher \<Rightarrow> matcher" where
  "further 0 m s = [s]"
| "further (Suc n) m s =
     concat (map (further n m) (filter (\<lambda>r. length r < length s) (m s))) @ [s]"

text \<open>The dot matches every character but a line terminator.\<close>

definition lineTerminator :: "char \<Rightarrow> bool" where
  "lineTerminator c = (c = CHR 0x0A \<or> c = CHR 0x0D)"

text \<open>
  An unbounded repetition makes at most as many further iterations as characters are left,
  since each consumes one at least.
\<close>

primrec continuations :: "regex \<Rightarrow> matcher" where
  "continuations (Chars cs) s =
     (case s of [] \<Rightarrow> [] | c # rest \<Rightarrow> if c \<in> set cs then [rest] else [])"
| "continuations (NotChars cs) s =
     (case s of [] \<Rightarrow> [] | c # rest \<Rightarrow> if c \<in> set cs then [] else [rest])"
| "continuations Dot s =
     (case s of [] \<Rightarrow> [] | c # rest \<Rightarrow> if lineTerminator c then [] else [rest])"
| "continuations (Seq a b) s = concat (map (continuations b) (continuations a s))"
| "continuations (Alt a b) s = continuations a s @ continuations b s"
| "continuations (Opt a) s = continuations a s @ [s]"
| "continuations (Rep lo hi a) s =
     concat (map (\<lambda>r. further (case hi of None \<Rightarrow> length r | Some h \<Rightarrow> h - lo)
                          (continuations a) r)
                 (exactly lo (continuations a) s))"

text \<open>
  \<open>text.match(regex)\<close> with the \<open>g\<close> flag: all matches from left to right, each search
  starting where the last match ended; where no match starts the search moves on by one
  character, and after an empty match as well. No match at all gives \<open>null\<close>, which
  \<open>splitByPunctuation\<close> turns into the empty array.
\<close>

fun matchGlobal :: "regex \<Rightarrow> string \<Rightarrow> string list" where
  "matchGlobal r s =
     (case continuations r s of
        [] \<Rightarrow> (case s of [] \<Rightarrow> [] | _ # t \<Rightarrow> matchGlobal r t)
      | rest # _ \<Rightarrow>
          if length rest < length s
          then take (length s - length rest) s # matchGlobal r rest
          else [] # (case s of [] \<Rightarrow> [] | _ # t \<Rightarrow> matchGlobal r t))"

text \<open>\<open>text.replace(pattern, '')\<close> with a string pattern: the first occurrence is removed.\<close>

fun replaceFirst :: "string \<Rightarrow> string \<Rightarrow> string" where
  "replaceFirst pat [] = []"
| "replaceFirst pat (c # cs) =
     (if prefix pat (c # cs) then drop (length pat) (c # cs) else c # replaceFirst pat cs)"

section \<open>Speech output (services/textToSpeechService.ts)\<close>

text \<open>
  The pattern of \<open>splitByPunctuation\<close>,
  \<^verbatim>\<open>([^.!?;]*([.!?;,"*]|[.!?:;,]+|(d{1,3}(?:,d{3})*(?:.d+)?))+)\<close>.
  The source writes it in a string literal without backslashes, so \<open>d\<close> is the letter d
  and \<open>.\<close> outside a class is the dot.
\<close>

definition punctuationRegex :: regex where
  "punctuationRegex =
     Seq (Star (NotChars ''.!?;''))
         (Plus (Alt (Chars (''.!?;,'' @ [CHR 0x22] @ ''*''))
               (Alt (Plus (Chars ''.!?:;,''))
                    (Seq (Rep 1 (Some 3) (Chars ''d''))
                    (Seq (Star (Seq (Chars '','') (Rep 3 (Some 3) (Chars ''d''))))
                         (Opt (Seq Dot (Plus (Chars ''d'')))))))))"

definition splitByPunctuation :: "string \<Rightarrow> string list \<times> string" where
  "splitByPunctuation text =
     (let matches = matchGlobal punctuationRegex text;
          matchedString = concat matches;
          unmatched = replaceFirst matchedString text
      in (matches, unmatched))"

text \<open>
  The fields of \<open>TextToSpeechService\<close> that \<open>speak\<close> and \<open>stop\<close> use. \<open>synth\<close> is
  whether the synthesis engine is non-null, \<open>synthSpeaking\<close> and \<open>synthPending\<close> are the
  engine's flags, \<open>voicesLoadedPromise\<close> is how that promise settles (\<open>Pending\<close>: never),
  \<open>speakPromiseRejecter\<close> is whether the handlers of a \<open>_speak\<close> promise are stored.
  \<open>synthCalls\<close> logs the calls made on the engine and \<open>rejections\<close> the reasons handed to
  a stored rejecter.
\<close>

datatype synthCall = Cancel | Speak string

record TextToSpeechService =
  synth :: bool
  synthSpeaking :: bool
  synthPending :: bool
  voicesLoadedPromise :: "unit promise"
  isSpeakingFlag :: bool
  speakPromiseRejecter :: bool
  synthCalls :: "synthCall list"
  rejections :: "string list"

text \<open>
  The constructor; \<open>supported\<close> says whether the browser has the synthesis API. With the
  API the promise resolves (when the voices arrive, or after the five-second timeout of
  \<open>initialize\<close>); without it the constructor rejects it.
\<close>

definition newTextToSpeechService :: "bool \<Rightarrow> TextToSpeechService" where
  "newTextToSpeechService supported =
     \<lparr>synth = supported, synthSpeaking = False, synthPending = False,
      voicesLoadedPromise =
        (if supported then Resolved () else Rejected ''Speech Synthesis not supported''),
      isSpeakingFlag = False, speakPromiseRejecter = False, synthCalls = [], rejections = []\<rparr>"

definition rejectPendingSpeakPromise :: "string \<Rightarrow> TextToSpeechService \<Rightarrow> TextToSpeechService" where
  "rejectPendingSpeakPromise reason this =
     (if speakPromiseRejecter this
      then this\<lparr>speakPromiseRejecter := False, rejections := rejections this @ [reason]\<rparr>
      else this)"

definition tts_stop :: "TextToSpeechService \<Rightarrow> TextToSpeechService" where
  "tts_stop this =
     (if \<not> synth this then this
      else if synthSpeaking this \<or> synthPending this \<or> isSpeakingFlag this
      then (rejectPendingSpeakPromise ''Speech interrupted by stop() call.'' this)
             \<lparr>synthCalls := synthCalls this @ [Cancel], synthSpeaking := False,
              synthPending := False, isSpeakingFlag := False\<rparr>
      else this)"

text \<open>
  What becomes of an utterance handed to the engine: its \<open>end\<close> event arrives, or the
  promise of \<open>_speak\<close> is rejected with a reason (the utterance's \<open>error\<close> event, or a
  \<open>stop()\<close> from elsewhere while it is spoken).
\<close>

datatype fate = Ends | Fails string

text \<open>\<open>_speak(text)\<close>, followed to the settlement of its promise.\<close>

definition speak1 :: "fate \<Rightarrow> string \<Rightarrow> TextToSpeechService \<Rightarrow> TextToSpeechService \<times> unit promise" where
  "speak1 f text this =
     (let this1 = this\<lparr>speakPromiseRejecter := True, isSpeakingFlag := False,
                        synthCalls := synthCalls this @ [Speak text]\<rparr>
      in case f of
           Ends \<Rightarrow> (this1\<lparr>isSpeakingFlag := False, speakPromiseRejecter := False\<rparr>, Resolved ())
         | Fails reason \<Rightarrow>
             (this1\<lparr>isSpeakingFlag := False, speakPromiseRejecter := False,
                    rejections := rejections this1 @ [reason]\<rparr>, Rejected reason))"

text \<open>
  The loop \<open>for (const chunk of chunks) await this._speak(chunk)\<close>: a rejected promise
  throws out of the loop. \<open>fates i\<close> is the fate of the \<open>i\<close>-th utterance of the call.
\<close>

fun speakChunks :: "(nat \<Rightarrow> fate) \<Rightarrow> nat \<Rightarrow> string list \<Rightarrow> TextToSpeechService \<Rightarrow> TextToSpeechService \<times> unit promise" where
  "speakChunks fates i [] this = (this, Resolved ())"
| "speakChunks fates i (chunk # chunks) this =
     (case speak1 (fates i) chunk this of
        (this1, Resolved _) \<Rightarrow> speakChunks fates (Suc i) chunks this1
      | (this1, Rejected reason) \<Rightarrow> (this1, Rejected reason)
      | (this1, Pending) \<Rightarrow> (this1, Pending))"

definition speak :: "(nat \<Rightarrow> fate) \<Rightarrow> string \<Rightarrow> TextToSpeechService \<Rightarrow> TextToSpeechService \<times> unit promise" where
  "speak fates text this =
     (if \<not> synth this then (this, Rejected ''Speech Synthesis not supported.'')
      else case voicesLoadedPromise this of
        Pending \<Rightarrow> (this, Pending)
      | Rejected error \<Rightarrow> (this, Rejected (''Failed to load voices: '' @ error))
      | Resolved _ \<Rightarrow>
          (let this1 = (if isSpeakingFlag this \<or> synthPending this then tts_stop this else this)
           in case splitByPunctuation text of
                (chunks, unmatched) \<Rightarrow>
                  (case speakChunks fates 0 chunks this1 of
                     (this2, Resolved _) \<Rightarrow>
                       if length unmatched > 0
                       then speak1 (fates (length chunks)) unmatched this2
                       else (this2, Resolved ())
                   | (this2, Rejected reason) \<Rightarrow> (this2, Rejected reason)
                   | (this2, Pending) \<Rightarrow> (this2, Pending))))"

text \<open>The texts handed to \<open>synth.speak\<close>, in the order of the calls.\<close>

fun utterances :: "synthCall list \<Rightarrow> string list" where
  "utterances [] = []"
| "utterances (Cancel # calls) = utterances calls"
| "utterances (Speak text # calls) = text # utterances calls"

subsection \<open>Auxiliary notion for the proofs\<close>


section \<open>Tools (adaptiveAgent/config/tools.ts) and the host application\<close>

text \<open>
  JavaScript values that travel between the model, the client and the tools. A number is
  the rational value of the double it is in the source: comparisons and \<open>Math.round\<close>
  are then exact, while the product of two doubles, which the engine rounds, and the
  conversion of a number to a string are taken from the surroundings (\<open>env\<close> below).
\<close>

datatype json =
    JNull
  | JBool bool
  | JNum rat
  | JStr string
  | JArr "json list"
  | JObj "(string \<times> json) list"

text \<open>The property read \<open>args.key\<close>; \<open>None\<close> is \<open>undefined\<close>.\<close>

fun property :: "string \<Rightarrow> json \<Rightarrow> json option" where
  "property k (JObj props) = map_of props k"
| "property k _ = None"

text \<open>
  A thrown value or the reason of a rejected promise: an \<open>Error\<close> object with its
  \<open>name\<close> and \<open>message\<close>, or any other value, given by whether it counts as true
  in a condition and by its conversion to a string.
\<close>

datatype thrown = ErrorObject string string | ThrownValue bool string

text \<open>\<open>error instanceof Error ? error.message : String(error)\<close>.\<close>

fun errorMessage :: "thrown \<Rightarrow> string" where
  "errorMessage (ErrorObject name message) = message"
| "errorMessage (ThrownValue counts v) = v"

text \<open>The conversion to a string in a template literal, \<open>Error.prototype.toString\<close> for
  an \<open>Error\<close> object.\<close>

fun errorToString :: "thrown \<Rightarrow> string" where
  "errorToString (ErrorObject name message) =
     (if name = [] then message else if message = [] then name else name @ '': '' @ message)"
| "errorToString (ThrownValue counts v) = v"

text \<open>Whether the value counts as true in a condition; an object does.\<close>

fun thrownTruthy :: "thrown \<Rightarrow> bool" where
  "thrownTruthy (ErrorObject name message) = True"
| "thrownTruthy (ThrownValue counts v) = counts"

text \<open>
  The promise of an \<open>async\<close> tool, settled: \<open>Inr\<close> the value it resolves with,
  \<open>Inl\<close> the error it rejects with.
\<close>

type_synonym toolResult = "thrown + json"

subsection \<open>The host application the tools act on\<close>

record recipe =
  rid :: int
  title :: string
  description :: string
  ingredients :: "string list"
  instructions :: "string list"
  food_country :: string
  recipeKeywords :: "string list"

text \<open>A card of \<open>createRecipeCard\<close>: the recipe and whether its heart was drawn red.\<close>

record card =
  cardRecipe :: recipe
  cardIsFavorite :: bool

text \<open>
  The state of the application: the module variables of \<open>state/index.js\<close>, the entries
  of \<open>localStorage\<close>, and the parts of the document that the functions of \<open>api.js\<close>,
  \<open>ui/render.js\<close> and \<open>ui/theme.js\<close> write.
\<close>

record app =
  favorites :: "rat list"
  storedFavorites :: "rat list option"
  currentFontSize :: rat
  baseFontSizeProperty :: "string option"
  dark :: bool
  storedTheme :: "string option"
  sunIconHidden :: bool
  moonIconHidden :: bool
  searchInputValue :: string
  recipeListCards :: "card list"
  favoritesListCards :: "card list"
  noFavoritesMessageHidden :: bool
  recipeDetail :: "recipe option"
  recipeDetailViewHidden :: bool
  recipeListViewHidden :: bool

text \<open>
  What the tools take from their surroundings without changing it: the table of
  \<open>data/recipes.js\<close>; the engine's conversion of a number to a string, used by the
  template literals; the engine's product of two doubles; and what a tool does when its
  arguments do not have the type of its interface. The casts of the handler
  (\<open>args as SearchRecipesArgs\<close> and the like) check nothing at run time, and what follows
  from arguments of another type (a \<open>TypeError\<close> at \<open>query.toLowerCase()\<close> in
  \<open>search_recipes\<close>, a run on \<open>undefined\<close> with the engine's coercions in the other
  tools) is outside the types of the source: \<open>outsideInterface\<close> gives it, for the name of
  the tool, the arguments and the state of the application.
\<close>

record env =
  recipes :: "recipe list"
  numberToString :: "rat \<Rightarrow> string"
  floatTimes :: "rat \<Rightarrow> rat \<Rightarrow> rat"
  outsideInterface :: "string \<Rightarrow> json \<Rightarrow> app \<Rightarrow> app \<times> toolResult"

definition toLowerCase :: "string \<Rightarrow> string" where
  "toLowerCase s =
     map (\<lambda>c. let n = (of_char c :: nat) in if 65 \<le> n \<and> n \<le> 90 then char_of (n + 32) else c) s"

text \<open>\<open>s.includes(q)\<close>, the substring test.\<close>

definition js_includes :: "string \<Rightarrow> string \<Rightarrow> bool" where
  "js_includes s q = sublist q s"

definition searchRecipesAPI :: "env \<Rightarrow> string \<Rightarrow> recipe list" where
  "searchRecipesAPI e query =
     (let lowerCaseQuery = toLowerCase query
      in filter (\<lambda>r.
           js_includes (toLowerCase (title r)) lowerCaseQuery
           \<or> js_includes (toLowerCase (description r)) lowerCaseQuery
           \<or> list_ex (\<lambda>ing. js_includes (toLowerCase ing) lowerCaseQuery) (ingredients r)
           \<or> js_includes (toLowerCase (food_country r)) lowerCaseQuery
           \<or> list_ex (\<lambda>k. js_includes (toLowerCase k) lowerCaseQuery) (recipeKeywords r))
         (recipes e))"

definition getRecipe :: "env \<Rightarrow> rat \<Rightarrow> recipe option" where
  "getRecipe e recipeId = find (\<lambda>r. of_int (rid r) = recipeId) (recipes e)"

definition createRecipeCard :: "recipe \<Rightarrow> app \<Rightarrow> card" where
  "createRecipeCard r a =
     \<lparr>cardRecipe = r, cardIsFavorite = (of_int (rid r) \<in> set (favorites a))\<rparr>"

definition renderRecipeList :: "recipe list \<Rightarrow> app \<Rightarrow> app" where
  "renderRecipeList recipesToRender a =
     a\<lparr>recipeListCards := map (\<lambda>r. createRecipeCard r a) recipesToRender\<rparr>"

definition renderFavorites :: "env \<Rightarrow> app \<Rightarrow> app" where
  "renderFavorites e a =
     (let favoriteRecipes = filter (\<lambda>r. of_int (rid r) \<in> set (favorites a)) (recipes e)
      in if length favoriteRecipes = 0
         then a\<lparr>favoritesListCards := [], noFavoritesMessageHidden := False\<rparr>
         else a\<lparr>favoritesListCards := map (\<lambda>r. createRecipeCard r a) favoriteRecipes,
                noFavoritesMessageHidden := True\<rparr>)"

definition showRecipeListView :: "env \<Rightarrow> app \<Rightarrow> app" where
  "showRecipeListView e a =
     renderRecipeList (recipes e)
       (a\<lparr>recipeDetailViewHidden := True, recipeListViewHidden := False, recipeDetail := None\<rparr>)"

definition viewRecipe :: "env \<Rightarrow> rat \<Rightarrow> app \<Rightarrow> app" where
  "viewRecipe e recipeId a =
     (case find (\<lambda>r. of_int (rid r) = recipeId) (recipes e) of
        Some r \<Rightarrow> a\<lparr>recipeDetail := Some r, recipeListViewHidden := True,
                      recipeDetailViewHidden := False\<rparr>
      | None \<Rightarrow> a)"

definition addFavorite :: "rat \<Rightarrow> app \<Rightarrow> app" where
  "addFavorite recipeId a =
     (if recipeId \<notin> set (favorites a)
      then a\<lparr>favorites := favorites a @ [recipeId],
             storedFavorites := Some (favorites a @ [recipeId])\<rparr>
      else a)"

definition removeFavorite :: "rat \<Rightarrow> app \<Rightarrow> app" where
  "removeFavorite recipeId a =
     (let kept = filter (\<lambda>i. i \<noteq> recipeId) (favorites a)
      in a\<lparr>favorites := kept, storedFavorites := Some kept\<rparr>)"

definition markAsFavorite :: "rat \<Rightarrow> bool \<Rightarrow> app \<Rightarrow> app" where
  "markAsFavorite recipeId isFavorite a =
     (if isFavorite then addFavorite recipeId a else removeFavorite recipeId a)"

definition toggleTheme :: "app \<Rightarrow> app" where
  "toggleTheme a =
     (let isDarkMode = \<not> dark a
      in a\<lparr>dark := isDarkMode,
           storedTheme := Some (if isDarkMode then ''dark'' else ''light''),
           sunIconHidden := isDarkMode, moonIconHidden := \<not> isDarkMode\<rparr>)"

definition setDarkMode :: "bool \<Rightarrow> app \<Rightarrow> app" where
  "setDarkMode isDark a = (if isDark \<noteq> dark a then toggleTheme a else a)"

text \<open>\<open>Math.round\<close> rounds to the nearest integer, a half upwards.\<close>

definition mathRound :: "rat \<Rightarrow> rat" where
  "mathRound x = of_int \<lfloor>x + 1 / 2\<rfloor>"

definition setFontSizeFactor :: "env \<Rightarrow> rat \<Rightarrow> app \<Rightarrow> app" where
  "setFontSizeFactor e factor a =
     (if factor > 0 \<and> factor \<le> 2
      then (let newSize = mathRound (floatTimes e (currentFontSize a) factor)
            in a\<lparr>currentFontSize := newSize,
                 baseFontSizeProperty := Some (numberToString e newSize @ ''px'')\<rparr>)
      else a)"

subsection \<open>Tool interfaces and implementations\<close>

datatype SearchRecipesArgs = SearchRecipesArgs string
datatype ViewRecipeArgs = ViewRecipeArgs rat
datatype GetRecipeDetailsArgs = GetRecipeDetailsArgs rat
datatype MarkAsFavoriteArgs = MarkAsFavoriteArgs rat bool
datatype SetDarkModeArgs = SetDarkModeArgs bool
datatype SetFontSizeArgs = SetFontSizeArgs rat

text \<open>A double quote.\<close>

definition dq :: string where
  "dq = [CHR 0x22]"

fun search_recipes :: "env \<Rightarrow> SearchRecipesArgs \<Rightarrow> app \<Rightarrow> app \<times> json" where
  "search_recipes e (SearchRecipesArgs query) a =
     (let results = searchRecipesAPI e query;
          a1 = renderRecipeList results a;
          a2 = a1\<lparr>searchInputValue := query\<rparr>
      in (a2, JStr (''Searched for '' @ dq @ query @ dq @ '' and found ''
                    @ numberToString e (of_nat (length results)) @ '' recipes.'')))"

fun view_recipe :: "env \<Rightarrow> ViewRecipeArgs \<Rightarrow> app \<Rightarrow> app \<times> json" where
  "view_recipe e (ViewRecipeArgs recipe_id) a =
     (viewRecipe e recipe_id a,
      JStr (''Displaying details for recipe ID '' @ numberToString e recipe_id @ ''.''))"

text \<open>
  \<open>list_recipes\<close> reads the cards back from the document: a card counts when its id and
  its title are non-empty strings, and the id is parsed back to the recipe's integer.
\<close>

definition list_recipes :: "env \<Rightarrow> app \<Rightarrow> app \<times> json" where
  "list_recipes e a =
     (if length (recipeListCards a) = 0
      then (a, JStr ''No recipes are currently listed on the screen.'')
      else (a, JArr (map (\<lambda>c. JObj [(''id'', JNum (of_int (rid (cardRecipe c)))),
                                      (''title'', JStr (title (cardRecipe c)))])
                      (filter (\<lambda>c. numberToString e (of_int (rid (cardRecipe c))) \<noteq> []
                                    \<and> title (cardRecipe c) \<noteq> [])
                              (recipeListCards a)))))"

definition list_favorites :: "env \<Rightarrow> app \<Rightarrow> app \<times> json" where
  "list_favorites e a =
     (a, JArr (map (\<lambda>r. JObj [(''id'', JNum (of_int (rid r))), (''title'', JStr (title r))])
               (filter (\<lambda>r. of_int (rid r) \<in> set (favorites a)) (recipes e))))"

fun get_recipe_details :: "env \<Rightarrow> GetRecipeDetailsArgs \<Rightarrow> app \<Rightarrow> app \<times> json" where
  "get_recipe_details e (GetRecipeDetailsArgs recipe_id) a =
     (case getRecipe e recipe_id of
        None \<Rightarrow> (a, JStr (''Recipe with ID '' @ numberToString e recipe_id @ '' not found.''))
      | Some r \<Rightarrow>
          (a, JObj [(''title'', JStr (title r)),
                    (''description'', JStr (description r)),
                    (''ingredients'', JArr (map JStr (ingredients r))),
                    (''food_country'', JStr (food_country r)),
                    (''keywords'', JArr (map JStr (recipeKeywords r)))]))"

fun mark_as_favorite :: "env \<Rightarrow> MarkAsFavoriteArgs \<Rightarrow> app \<Rightarrow> app \<times> json" where
  "mark_as_favorite e (MarkAsFavoriteArgs recipe_id is_favorite) a =
     (let a1 = markAsFavorite recipe_id is_favorite a;
          currentSearch = searchInputValue a1;
          recipesToRender =
            (if currentSearch \<noteq> [] then searchRecipesAPI e currentSearch else recipes e);
          a2 = renderRecipeList recipesToRender a1;
          a3 = renderFavorites e a2
      in (a3, JStr (''Recipe '' @ numberToString e recipe_id @ '' has been ''
                    @ (if is_favorite then ''added to'' else ''removed from'')
                    @ '' favorites.'')))"

fun set_dark_mode :: "env \<Rightarrow> SetDarkModeArgs \<Rightarrow> app \<Rightarrow> app \<times> json" where
  "set_dark_mode e (SetDarkModeArgs enabled) a =
     (setDarkMode enabled a,
      JStr (''Dark mode has been '' @ (if enabled then ''enabled'' else ''disabled'') @ ''.''))"

fun set_font_size :: "env \<Rightarrow> SetFontSizeArgs \<Rightarrow> app \<Rightarrow> app \<times> json" where
  "set_font_size e (SetFontSizeArgs factor) a =
     (if factor < 1 / 2 \<or> factor > 2
      then (a, JStr ''Error: Font size factor must be between 0.5 and 2.0.'')
      else (setFontSizeFactor e factor a,
            JStr (''Font size adjusted by a factor of '' @ numberToString e factor @ ''.'')))"

definition go_back_to_list :: "env \<Rightarrow> app \<Rightarrow> app \<times> json" where
  "go_back_to_list e a =
     (showRecipeListView e a, JStr ''Returned to the main recipe list view.'')"

subsection \<open>The casts of the tool call handler\<close>

text \<open>
  Each cast reads the fields its interface names and succeeds when they have the types
  the interface gives them.
\<close>

definition asSearchRecipesArgs :: "json \<Rightarrow> SearchRecipesArgs option" where
  "asSearchRecipesArgs args =
     (case property ''query'' args of Some (JStr q) \<Rightarrow> Some (SearchRecipesArgs q) | _ \<Rightarrow> None)"

definition asViewRecipeArgs :: "json \<Rightarrow> ViewRecipeArgs option" where
  "asViewRecipeArgs args =
     (case property ''recipe_id'' args of Some (JNum n) \<Rightarrow> Some (ViewRecipeArgs n) | _ \<Rightarrow> None)"

definition asGetRecipeDetailsArgs :: "json \<Rightarrow> GetRecipeDetailsArgs option" where
  "asGetRecipeDetailsArgs args =
     (case property ''recipe_id'' args of
        Some (JNum n) \<Rightarrow> Some (GetRecipeDetailsArgs n) | _ \<Rightarrow> None)"

definition asMarkAsFavoriteArgs :: "json \<Rightarrow> MarkAsFavoriteArgs option" where
  "asMarkAsFavoriteArgs args =
     (case (property ''recipe_id'' args, property ''is_favorite'' args) of
        (Some (JNum n), Some (JBool b)) \<Rightarrow> Some (MarkAsFavoriteArgs n b) | _ \<Rightarrow> None)"

definition asSetDarkModeArgs :: "json \<Rightarrow> SetDarkModeArgs option" where
  "asSetDarkModeArgs args =
     (case property ''enabled'' args of Some (JBool b) \<Rightarrow> Some (SetDarkModeArgs b) | _ \<Rightarrow> None)"

definition asSetFontSizeArgs :: "json \<Rightarrow> SetFontSizeArgs option" where
  "asSetFontSizeArgs args =
     (case property ''factor'' args of Some (JNum n) \<Rightarrow> Some (SetFontSizeArgs n) | _ \<Rightarrow> None)"

text \<open>A tool called with the arguments as cast; with arguments outside its interface the
  surroundings say what happens.\<close>

definition withArgs ::
  "env \<Rightarrow> string \<Rightarrow> json \<Rightarrow> 'a option \<Rightarrow> ('a \<Rightarrow> app \<Rightarrow> app \<times> json) \<Rightarrow> app
     \<Rightarrow> app \<times> toolResult" where
  "withArgs e functionName args decoded tool a =
     (case decoded of
        None \<Rightarrow> outsideInterface e functionName args a
      | Some typed \<Rightarrow> (case tool typed a of (a1, v) \<Rightarrow> (a1, Inr v)))"

definition resolved :: "app \<times> json \<Rightarrow> app \<times> toolResult" where
  "resolved r = (fst r, Inr (snd r))"

subsection \<open>The tool call handler\<close>

definition handleToolCall :: "env \<Rightarrow> string \<Rightarrow> json \<Rightarrow> app \<Rightarrow> app \<times> toolResult" where
  "handleToolCall e functionName args a =
     (if functionName = ''search_recipes''
        then withArgs e functionName args (asSearchRecipesArgs args) (search_recipes e) a
      else if functionName = ''view_recipe''
        then withArgs e functionName args (asViewRecipeArgs args) (view_recipe e) a
      else if functionName = ''list_recipes'' then resolved (list_recipes e a)
      else if functionName = ''list_favorites'' then resolved (list_favorites e a)
      else if functionName = ''get_recipe_details''
        then withArgs e functionName args (asGetRecipeDetailsArgs args) (get_recipe_details e) a
      else if functionName = ''mark_as_favorite''
        then withArgs e functionName args (asMarkAsFavoriteArgs args) (mark_as_favorite e) a
      else if functionName = ''set_dark_mode''
        then withArgs e functionName args (asSetDarkModeArgs args) (set_dark_mode e) a
      else if functionName = ''set_font_size''
        then withArgs e functionName args (asSetFontSizeArgs args) (set_font_size e) a
      else if functionName = ''go_back_to_list'' then resolved (go_back_to_list e a)
      else (a, Inr (JStr (''Error: Tool '' @ functionName @ '' is not available.''))))"

subsection \<open>The declarations\<close>

datatype SchemaType = STRING | NUMBER | BOOLEAN | OBJECT

record FunctionDeclaration =
  decl_name :: string
  decl_description :: string
  decl_properties :: "(string \<times> SchemaType \<times> string) list"
  decl_required :: "string list"

definition searchRecipesDeclaration :: FunctionDeclaration where
  "searchRecipesDeclaration =
     \<lparr>decl_name = ''search_recipes'',
      decl_description =
        ''Searches for recipes based on a query string and displays the results.'',
      decl_properties = [(''query'', STRING, ''The search term for recipes.'')],
      decl_required = [''query'']\<rparr>"

definition viewRecipeDeclaration :: FunctionDeclaration where
  "viewRecipeDeclaration =
     \<lparr>decl_name = ''view_recipe'',
      decl_description = ''Displays the detailed view for a specific recipe by its ID.'',
      decl_properties = [(''recipe_id'', NUMBER, ''The ID of the recipe to display.'')],
      decl_required = [''recipe_id'']\<rparr>"

definition listRecipesDeclaration :: FunctionDeclaration where
  "listRecipesDeclaration =
     \<lparr>decl_name = ''list_recipes'',
      decl_description =
        ''Returns a list of the recipe titles and IDs currently visible in the main recipe list. Useful for getting context of what's on screen.'',
      decl_properties = [],
      decl_required = []\<rparr>"

definition listFavoritesDeclaration :: FunctionDeclaration where
  "listFavoritesDeclaration =
     \<lparr>decl_name = ''list_favorites'',
      decl_description = ''Returns a list of the user's favorite recipes.'',
      decl_properties = [],
      decl_required = []\<rparr>"

definition getRecipeDetailsDeclaration :: FunctionDeclaration where
  "getRecipeDetailsDeclaration =
     \<lparr>decl_name = ''get_recipe_details'',
      decl_description =
        ''Retrieves the full details of a single recipe by its ID without changing the user's view. Useful for answering questions about a specific recipe.'',
      decl_properties =
        [(''recipe_id'', NUMBER, ''The ID of the recipe to retrieve details for.'')],
      decl_required = [''recipe_id'']\<rparr>"

definition markAsFavoriteDeclaration :: FunctionDeclaration where
  "markAsFavoriteDeclaration =
     \<lparr>decl_name = ''mark_as_favorite'',
      decl_description = ''Marks or unmarks a recipe as a favorite.'',
      decl_properties =
        [(''recipe_id'', NUMBER, ''The ID of the recipe to mark or unmark.''),
         (''is_favorite'', BOOLEAN, ''Set to true to mark as favorite, false to unmark.'')],
      decl_required = [''recipe_id'', ''is_favorite'']\<rparr>"

definition setDarkModeDeclaration :: FunctionDeclaration where
  "setDarkModeDeclaration =
     \<lparr>decl_name = ''set_dark_mode'',
      decl_description = ''Enables or disables dark mode for the application UI.'',
      decl_properties =
        [(''enabled'', BOOLEAN,
          ''Set to true to enable dark mode, false to disable (use light mode).'')],
      decl_required = [''enabled'']\<rparr>"

definition setFontSizeDeclaration :: FunctionDeclaration where
  "setFontSizeDeclaration =
     \<lparr>decl_name = ''set_font_size'',
      decl_description =
        ''Adjusts the application font size by a multiplier. The factor should be between 0.5 (smaller) and 2.0 (larger). A factor of 1.1 would be a 10% increase.'',
      decl_properties =
        [(''factor'', NUMBER,
          ''The multiplication factor for the font size. E.g., 1.2 for a 20% increase.'')],
      decl_required = [''factor'']\<rparr>"

definition goBackToListDeclaration :: FunctionDeclaration where
  "goBackToListDeclaration =
     \<lparr>decl_name = ''go_back_to_list'',
      decl_description =
        ''Navigates from the recipe detail view back to the main recipe list.'',
      decl_properties = [],
      decl_required = []\<rparr>"

definition functionDeclarations :: "FunctionDeclaration list" where
  "functionDeclarations =
     [searchRecipesDeclaration, viewRecipeDeclaration, listRecipesDeclaration,
      listFavoritesDeclaration, getRecipeDetailsDeclaration, markAsFavoriteDeclaration,
      setDarkModeDeclaration, setFontSizeDeclaration, goBackToListDeclaration]"

section \<open>Model session client (adaptiveAgent/gemini/geminiClient.ts)\<close>

record FunctionCall =
  fc_name :: string
  fc_args :: json

text \<open>A \<open>Part\<close> holding a \<open>functionResponse\<close>.\<close>

record FunctionResponse =
  fr_name :: string
  fr_response :: json

text \<open>What \<open>chat.sendMessage\<close> is given: the user's text, or the parts of a reply.\<close>

datatype request = UserInput string | FunctionResponseParts "FunctionResponse list"

text \<open>
  What \<open>chat.sendMessage\<close> resolves with: nothing usable (\<open>undefined\<close>, or a result
  without \<open>response\<close>), or a response with what its \<open>functionCalls()\<close> and its
  \<open>text()\<close> return. The promise may also reject: \<open>Inl\<close> of the error.
\<close>

datatype apiResult = NoResponse | Response "FunctionCall list option" string

text \<open>
  The chat session of the SDK: the language model, as the function from the requests of
  the session so far to its answer to the last one, and the requests sent so far.
\<close>

record ChatSession =
  respond :: "request list \<Rightarrow> thrown + apiResult"
  sent :: "request list"

definition chat_sendMessage :: "request \<Rightarrow> ChatSession \<Rightarrow> ChatSession \<times> (thrown + apiResult)" where
  "chat_sendMessage req ch = (ch\<lparr>sent := sent ch @ [req]\<rparr>, respond ch (sent ch @ [req]))"

text \<open>
  The events of \<open>GeminiClientEvent\<close> with their payloads: \<open>ResponseComplete text error\<close>,
  \<open>FunctionCallCompleted name args result\<close>, \<open>Error message details\<close>.
\<close>

datatype GeminiClientEvent =
    ChatInitialized
  | Thinking
  | ResponseChunk
  | ResponseComplete "string option" "thrown option"
  | FunctionCallRequested "FunctionCall list"
  | FunctionCallCompleted string json json
  | Error string "thrown option"

text \<open>
  The client, over the type \<open>'a\<close> of the state its tools act on. \<open>model\<close> is the language
  model behind \<open>this.model\<close>, \<open>handleToolCallConfig\<close> is
  \<open>config.toolsConfig?.handleToolCall\<close>, \<open>subscribed\<close> is whether listeners are attached,
  and \<open>emitted_events\<close> logs the events emitted, oldest first. \<open>settleTime\<close> is the
  schedule of the event loop, kept with the client: for a batch of calls, the time at
  which the promise of the call at each position settles.
\<close>

record 'a GeminiClient =
  model :: "request list \<Rightarrow> thrown + apiResult"
  chat :: "ChatSession option"
  handleToolCallConfig :: "(string \<Rightarrow> json \<Rightarrow> 'a \<Rightarrow> 'a \<times> toolResult) option"
  subscribed :: bool
  emitted_events :: "GeminiClientEvent list"
  settleTime :: "FunctionCall list \<Rightarrow> nat \<Rightarrow> nat"

definition newGeminiClient ::
  "(request list \<Rightarrow> thrown + apiResult) \<Rightarrow> (string \<Rightarrow> json \<Rightarrow> 'a \<Rightarrow> 'a \<times> toolResult) option
     \<Rightarrow> (FunctionCall list \<Rightarrow> nat \<Rightarrow> nat) \<Rightarrow> 'a GeminiClient" where
  "newGeminiClient m h schedule =
     \<lparr>model = m, chat = None, handleToolCallConfig = h, subscribed = False,
      emitted_events = [], settleTime = schedule\<rparr>"

definition client_emit :: "GeminiClientEvent \<Rightarrow> 'a GeminiClient \<Rightarrow> 'a GeminiClient" where
  "client_emit ev c = c\<lparr>emitted_events := emitted_events c @ [ev]\<rparr>"

text \<open>\<open>initializeChat(history)\<close>; \<open>startChatThrows\<close> is the error \<open>model.startChat\<close>
  throws, if it throws. The error is caught and emitted, not thrown on.\<close>

definition initializeChat :: "thrown option \<Rightarrow> request list \<Rightarrow> 'a GeminiClient \<Rightarrow> 'a GeminiClient" where
  "initializeChat startChatThrows history c =
     (case startChatThrows of
        None \<Rightarrow> client_emit ChatInitialized (c\<lparr>chat := Some \<lparr>respond = model c, sent = history\<rparr>\<rparr>)
      | Some error \<Rightarrow>
          client_emit (Error ''Failed to initialize chat session.'' (Some error)) c)"

text \<open>
  \<open>handleFunctionCalls\<close> maps an \<open>async\<close> callback over the calls and awaits
  \<open>Promise.all\<close> of the promises. \<open>map\<close> starts the callbacks in the order of the
  array, and each runs up to its \<open>await\<close> at once: that is the dispatch, with whatever
  the tool does to the state it acts on. \<open>dispatch\<close> gives the state the tools leave and
  their results, in the order of the calls.
\<close>

fun dispatch ::
  "(string \<Rightarrow> json \<Rightarrow> 'a \<Rightarrow> 'a \<times> toolResult) \<Rightarrow> FunctionCall list \<Rightarrow> 'a
     \<Rightarrow> 'a \<times> toolResult list" where
  "dispatch handler [] a = (a, [])"
| "dispatch handler (fc # fcs) a =
     (case handler (fc_name fc) (fc_args fc) a of
        (a1, r) \<Rightarrow> (case dispatch handler fcs a1 of (a2, rs) \<Rightarrow> (a2, r # rs)))"

text \<open>
  The rest of the callback runs when the promise of the dispatch has settled: the result
  is wrapped and pushed to \<open>functionResponseParts\<close> and \<open>functionCallCompleted\<close> is
  emitted, or, in the \<open>catch\<close> block, \<open>error\<close> is emitted and an error payload pushed.
\<close>

definition settle ::
  "FunctionCall \<Rightarrow> toolResult \<Rightarrow> 'a GeminiClient \<times> FunctionResponse list
     \<Rightarrow> 'a GeminiClient \<times> FunctionResponse list" where
  "settle fc settled s =
     (case s of (c, functionResponseParts) \<Rightarrow>
        (let functionName = fc_name fc; args = fc_args fc
         in case settled of
              Inr toolResult \<Rightarrow>
                (let functionResponseData = JObj [(''result'', toolResult)]
                 in (client_emit (FunctionCallCompleted functionName args functionResponseData) c,
                     functionResponseParts
                       @ [\<lparr>fr_name = functionName, fr_response = functionResponseData\<rparr>]))
            | Inl error \<Rightarrow>
                (client_emit (Error (''Error executing tool '' @ functionName) (Some error)) c,
                 functionResponseParts
                   @ [\<lparr>fr_name = functionName,
                       fr_response =
                         JObj [(''error'',
                                JStr (''Failed to execute tool: '' @ errorMessage error))]\<rparr>])))"

text \<open>
  The promises settle in the order of their times, those of equal time in the order of
  the calls: \<open>settleOrder\<close> lists the positions of a batch of \<open>n\<close> calls in that order.
\<close>

definition settleOrder :: "(nat \<Rightarrow> nat) \<Rightarrow> nat \<Rightarrow> nat list" where
  "settleOrder time n = sort_key time [0..<n]"

fun settleAll ::
  "FunctionCall list \<Rightarrow> toolResult list \<Rightarrow> nat list
     \<Rightarrow> 'a GeminiClient \<times> FunctionResponse list
     \<Rightarrow> 'a GeminiClient \<times> FunctionResponse list" where
  "settleAll fcs rs [] s = s"
| "settleAll fcs rs (i # order) s = settleAll fcs rs order (settle (fcs ! i) (rs ! i) s)"

text \<open>
  \<open>processApiResponse\<close> and \<open>handleFunctionCalls\<close> call each other without a bound on
  the number of round trips. The first argument counts the responses of the model that may
  still be processed; with none left the result is \<open>None\<close>: the turn is still running.
  Otherwise the result says how the call ends.
\<close>

fun processApiResponse ::
  "nat \<Rightarrow> apiResult \<Rightarrow> 'a GeminiClient \<times> 'a \<Rightarrow> ('a GeminiClient \<times> 'a) \<times> thrown outcome option"
and handleFunctionCalls ::
  "nat \<Rightarrow> FunctionCall list \<Rightarrow> 'a GeminiClient \<times> 'a \<Rightarrow> ('a GeminiClient \<times> 'a) \<times> thrown outcome option"
where
  "processApiResponse 0 result s = (s, None)"
| "processApiResponse (Suc n) result s =
     (case result of
        NoResponse \<Rightarrow> (s, Some (Throws (ErrorObject ''Error'' ''Received invalid response from API'')))
      | Response functionCalls text \<Rightarrow>
          (case functionCalls of
             Some (fc # fcs) \<Rightarrow> handleFunctionCalls n (fc # fcs) s
           | _ \<Rightarrow> ((client_emit (ResponseComplete (Some text) None) (fst s), snd s),
                   Some Returns)))"
| "handleFunctionCalls n functionCalls s =
     (case chat (fst s) of
        None \<Rightarrow>
          (s, Some (Throws (ErrorObject ''Error''
                              ''Chat not initialized during function call handling.'')))
      | Some ch \<Rightarrow>
          (case handleToolCallConfig (fst s) of
             None \<Rightarrow>
               (s, Some (Throws (ErrorObject ''Error''
                                   ''handleToolCall function is not configured.'')))
           | Some handler \<Rightarrow>
               (case dispatch handler functionCalls (snd s) of
                  (a1, rs) \<Rightarrow>
                    (case settleAll functionCalls rs
                            (settleOrder (settleTime (fst s) functionCalls) (length functionCalls))
                            (client_emit (FunctionCallRequested functionCalls) (fst s), []) of
                       (c1, functionResponseParts) \<Rightarrow>
                         (case chat_sendMessage (FunctionResponseParts functionResponseParts) ch of
                            (ch1, Inl error) \<Rightarrow>
                              ((c1\<lparr>chat := Some ch1\<rparr>, a1), Some (Throws error))
                          | (ch1, Inr nextResult) \<Rightarrow>
                              processApiResponse n nextResult (c1\<lparr>chat := Some ch1\<rparr>, a1))))))"

text \<open>\<open>sendMessage(userInput)\<close> with its \<open>try\<close>/\<open>catch\<close>.\<close>

definition sendMessage ::
  "nat \<Rightarrow> string \<Rightarrow> 'a GeminiClient \<times> 'a \<Rightarrow> ('a GeminiClient \<times> 'a) \<times> thrown outcome option" where
  "sendMessage fuel userInput s =
     (case chat (fst s) of
        None \<Rightarrow>
          ((client_emit (Error ''Chat not initialized. Call initializeChat() first.'' None) (fst s),
            snd s), Some Returns)
      | Some ch \<Rightarrow>
          (case chat_sendMessage (UserInput userInput) ch of
             (ch1, answer) \<Rightarrow>
               (let s1 = ((client_emit Thinking (fst s))\<lparr>chat := Some ch1\<rparr>, snd s)
                in case (case answer of
                           Inl error \<Rightarrow> (s1, Some (Throws error))
                         | Inr result \<Rightarrow> processApiResponse fuel result s1) of
                     (s2, Some (Throws error)) \<Rightarrow>
                       ((client_emit (ResponseComplete None (Some error))
                           (client_emit (Error ''Failed to get response from Gemini.'' (Some error))
                              (fst s2)),
                         snd s2), Some Returns)
                   | (s2, finished) \<Rightarrow> (s2, finished))))"

definition destroy :: "'a GeminiClient \<Rightarrow> 'a GeminiClient" where
  "destroy c = c\<lparr>chat := None, subscribed := False\<rparr>"

subsection \<open>Notions for stating the properties of a turn\<close>

text \<open>The part and the event that belong to one call and its result, and those of a
  batch in the order in which the calls settle.\<close>

definition functionResponse :: "FunctionCall \<Rightarrow> toolResult \<Rightarrow> FunctionResponse" where
  "functionResponse fc r =
     (case r of
        Inr toolResult \<Rightarrow> \<lparr>fr_name = fc_name fc, fr_response = JObj [(''result'', toolResult)]\<rparr>
      | Inl error \<Rightarrow>
          \<lparr>fr_name = fc_name fc,
           fr_response =
             JObj [(''error'', JStr (''Failed to execute tool: '' @ errorMessage error))]\<rparr>)"

definition completionEvent :: "FunctionCall \<Rightarrow> toolResult \<Rightarrow> GeminiClientEvent" where
  "completionEvent fc r =
     (case r of
        Inr toolResult \<Rightarrow>
          FunctionCallCompleted (fc_name fc) (fc_args fc) (JObj [(''result'', toolResult)])
      | Inl error \<Rightarrow> Error (''Error executing tool '' @ fc_name fc) (Some error))"

definition partsInOrder :: "FunctionCall list \<Rightarrow> toolResult list \<Rightarrow> nat list \<Rightarrow> FunctionResponse list" where
  "partsInOrder fcs rs order = map (\<lambda>i. functionResponse (fcs ! i) (rs ! i)) order"

definition eventsInOrder :: "FunctionCall list \<Rightarrow> toolResult list \<Rightarrow> nat list \<Rightarrow> GeminiClientEvent list" where
  "eventsInOrder fcs rs order = map (\<lambda>i. completionEvent (fcs ! i) (rs ! i)) order"

text \<open>An object envelope: an object with the single property \<open>result\<close>, or with the
  single property \<open>error\<close> holding a string.\<close>

fun isString :: "json \<Rightarrow> bool" where
  "isString (JStr s) = True"
| "isString _ = False"

fun isEnvelope :: "json \<Rightarrow> bool" where
  "isEnvelope (JObj [(k, v)]) = (k = ''result'' \<or> (k = ''error'' \<and> isString v))"
| "isEnvelope _ = False"

fun envelopedRequest :: "request \<Rightarrow> bool" where
  "envelopedRequest (UserInput u) = True"
| "envelopedRequest (FunctionResponseParts parts) =
     list_all (\<lambda>p. isEnvelope (fr_response p)) parts"

definition envelopedSession :: "'a GeminiClient \<Rightarrow> bool" where
  "envelopedSession c =
     (case chat c of None \<Rightarrow> True | Some ch \<Rightarrow> list_all envelopedRequest (sent ch))"

fun isFunctionCallRequested :: "GeminiClientEvent \<Rightarrow> bool" where
  "isFunctionCallRequested (FunctionCallRequested fcs) = True"
| "isFunctionCallRequested _ = False"

fun isResponseComplete :: "GeminiClientEvent \<Rightarrow> bool" where
  "isResponseComplete (ResponseComplete t e) = True"
| "isResponseComplete _ = False"

text \<open>
  The parts sent to the model in the requests of a session, and the calls the model has
  asked for according to the events emitted, both oldest first. In \<open>everyCallAnswered\<close>
  the names of the parts sent are the names of the calls requested, each as often.
\<close>

fun sentParts :: "request list \<Rightarrow> FunctionResponse list" where
  "sentParts [] = []"
| "sentParts (UserInput u # requests) = sentParts requests"
| "sentParts (FunctionResponseParts parts # requests) = parts @ sentParts requests"

fun requestedCalls :: "GeminiClientEvent list \<Rightarrow> FunctionCall list" where
  "requestedCalls [] = []"
| "requestedCalls (FunctionCallRequested fcs # evs) = fcs @ requestedCalls evs"
| "requestedCalls (ev # evs) = requestedCalls evs"

definition everyCallAnswered :: "'a GeminiClient \<Rightarrow> bool" where
  "everyCallAnswered c =
     (case chat c of
        None \<Rightarrow> True
      | Some ch \<Rightarrow>
          mset (map fr_name (sentParts (sent ch)))
            = mset (map fc_name (requestedCalls (emitted_events c))))"

section \<open>Agent orchestrator (adaptiveAgent/agent.ts)\<close>

text \<open>The functions whose names begin with an underscore in the source are written
  without it.\<close>

text \<open>The calls made on the caption and earcon services, which the orchestrator only
  drives.\<close>

datatype captionCall = ShowCaption string "nat option" | RemoveCaption

datatype earconCall =
    PlayEnableEarcon
  | PlayDisableEarcon
  | PlayMicOnEarcon
  | PlayMicOffEarcon
  | PlayErrorEarcon
  | PlayReadyEarcon
  | StartThinkingLoop
  | StopThinkingLoop
  | StopAllSounds

text \<open>
  The module: the shared state, the four services (the caption and earcon services as the
  calls made on them), the module variables \<open>agentApiKey\<close> and \<open>agentModelName\<close>, and
  the \<open>GeminiClient\<close> objects created so far, each under the reference by which the
  shared state holds it. \<open>nextRef\<close> is the next unused reference.
\<close>

record agent =
  store :: store
  captionsService :: "captionCall list"
  earconService :: "earconCall list"
  sttService :: SpeechToTextService
  ttsService :: TextToSpeechService
  agentApiKey :: "string option"
  agentModelName :: "string option"
  clients :: "(nat \<times> app GeminiClient) list"
  nextRef :: nat

text \<open>
  What a run of a handler meets outside the module: whether building the configuration
  and the client throws, whether \<open>model.startChat\<close> throws, the language model, the fate
  of the utterances of a \<open>speak\<close>, whether \<open>recognition.abort()\<close> throws, the
  surroundings of the tools, and the times at which the promises of a batch settle.
\<close>

record world =
  constructorThrows :: "thrown option"
  startChatThrows :: "thrown option"
  languageModel :: "request list \<Rightarrow> thrown + apiResult"
  utteranceFates :: "nat \<Rightarrow> fate"
  abortThrows :: "string option"
  toolEnv :: env
  eventLoop :: "FunctionCall list \<Rightarrow> nat \<Rightarrow> nat"

definition GREETING_MESSAGE :: string where
  "GREETING_MESSAGE = ''Hello! Ready to help.''"

text \<open>Whether a value counts as true in a condition.\<close>

fun truthy :: "val \<Rightarrow> bool" where
  "truthy VUndefined = False"
| "truthy VNull = False"
| "truthy (VBool b) = b"
| "truthy (VStr s) = (s \<noteq> [])"
| "truthy (VRef r) = True"

definition agent_updateState :: "Partial \<Rightarrow> agent \<Rightarrow> agent" where
  "agent_updateState updates ag = ag\<lparr>store := updateState updates (store ag)\<rparr>"

definition showCaption :: "string \<Rightarrow> nat option \<Rightarrow> agent \<Rightarrow> agent" where
  "showCaption caption milliseconds ag =
     ag\<lparr>captionsService := captionsService ag @ [ShowCaption caption milliseconds]\<rparr>"

definition removeCaption :: "agent \<Rightarrow> agent" where
  "removeCaption ag = ag\<lparr>captionsService := captionsService ag @ [RemoveCaption]\<rparr>"

definition earcon :: "earconCall \<Rightarrow> agent \<Rightarrow> agent" where
  "earcon call ag = ag\<lparr>earconService := earconService ag @ [call]\<rparr>"

subsection \<open>The handlers of the client's events\<close>

definition handleGeminiThinking :: "agent \<Rightarrow> agent" where
  "handleGeminiThinking ag =
     earcon StartThinkingLoop (agent_updateState [(IsAgentThinking, VBool True)] ag)"

definition handleGeminiError :: "string \<Rightarrow> agent \<Rightarrow> agent" where
  "handleGeminiError message ag =
     showCaption (''Error: '' @ message) (Some 6000)
       (earcon PlayErrorEarcon
         (agent_updateState [(IsAgentThinking, VBool False), (LastError, VStr message)]
           (earcon StopThinkingLoop ag)))"

text \<open>The payload is \<open>text\<close> and \<open>error\<close>; a text counts when it is not empty, and
  the error is put into the message by the template literal.\<close>

definition handleGeminiResponse :: "world \<Rightarrow> string option \<Rightarrow> thrown option \<Rightarrow> agent \<Rightarrow> agent" where
  "handleGeminiResponse w payloadText payloadError ag =
     (let ag1 = agent_updateState [(IsAgentThinking, VBool False)] (earcon StopThinkingLoop ag)
      in case payloadText of
           Some (c # cs) \<Rightarrow>
             (let ag2 = showCaption (''Agent: '' @ c # cs) None ag1
              in case speak (utteranceFates w) (c # cs) (ttsService ag2) of
                   (tts, Rejected err) \<Rightarrow>
                     agent_updateState [(LastError, VStr (''TTS failed: '' @ err))]
                       (ag2\<lparr>ttsService := tts\<rparr>)
                 | (tts, _) \<Rightarrow> ag2\<lparr>ttsService := tts\<rparr>)
         | _ \<Rightarrow>
             (case payloadError of
                Some error \<Rightarrow>
                  (if thrownTruthy error
                   then handleGeminiError (''Gemini response error: '' @ errorToString error) ag1
                   else earcon PlayReadyEarcon (removeCaption ag1))
              | None \<Rightarrow> earcon PlayReadyEarcon (removeCaption ag1)))"

text \<open>
  An event of the client reaches the listener that \<open>_handleAgentToggleClick\<close> attached
  for it; the other events have no listener.
\<close>

fun deliver :: "world \<Rightarrow> GeminiClientEvent \<Rightarrow> agent \<Rightarrow> agent" where
  "deliver w Thinking ag = handleGeminiThinking ag"
| "deliver w (ResponseComplete payloadText payloadError) ag =
     handleGeminiResponse w payloadText payloadError ag"
| "deliver w (Error message details) ag = handleGeminiError message ag"
| "deliver w _ ag = ag"

fun deliverAll :: "world \<Rightarrow> GeminiClientEvent list \<Rightarrow> agent \<Rightarrow> agent" where
  "deliverAll w [] ag = ag"
| "deliverAll w (ev # evs) ag = deliverAll w evs (deliver w ev ag)"

subsection \<open>The toggle handler\<close>

text \<open>The \<open>catch\<close> block of the enabling branch, for the conversion of the caught
  value to a string by the template literals.\<close>

definition enableFailed :: "string \<Rightarrow> agent \<Rightarrow> agent" where
  "enableFailed error ag =
     agent_updateState [(IsAgentEnabled, VBool False), (GeminiClient, VNull)]
       (earcon PlayErrorEarcon
         (showCaption (''Error: '' @ error) (Some 5000)
           (agent_updateState [(LastError, VStr (''Gemini init failed: '' @ error))] ag)))"

text \<open>The client of the shared state, destroyed (\<open>geminiClient?.destroy()\<close>).\<close>

definition destroyClient :: "val \<Rightarrow> agent \<Rightarrow> agent" where
  "destroyClient geminiClient ag =
     (case geminiClient of
        VRef r \<Rightarrow> ag\<lparr>clients := map (\<lambda>(r', c). if r' = r then (r', destroy c) else (r', c))
                                   (clients ag)\<rparr>
      | _ \<Rightarrow> ag)"

definition handleAgentToggleClick :: "world \<Rightarrow> agent \<Rightarrow> agent" where
  "handleAgentToggleClick w ag =
     (let isAgentEnabled = getState (store ag) IsAgentEnabled;
          geminiClient = getState (store ag) GeminiClient
      in if \<not> truthy isAgentEnabled then
           (let ag1 = earcon PlayEnableEarcon
                        (showCaption ''Initializing Agent...'' (Some 2000)
                          (earcon PlayEnableEarcon
                            (showCaption ''Initializing Agent...'' (Some 2000) ag)))
            in case agentApiKey ag1 of
                 Some (k # ks) \<Rightarrow>
                   (case constructorThrows w of
                      Some error \<Rightarrow> enableFailed (errorToString error) ag1
                    | None \<Rightarrow>
                        (let client = (newGeminiClient (languageModel w)
                                         (Some (handleToolCall (toolEnv w))) (eventLoop w))
                                        \<lparr>subscribed := True\<rparr>;
                             client1 = initializeChat (startChatThrows w) [] client;
                             ref = nextRef ag1;
                             ag2 = deliverAll w (emitted_events client1)
                                     (ag1\<lparr>clients := clients ag1 @ [(ref, client1)],
                                          nextRef := Suc ref\<rparr>);
                             ag3 = agent_updateState
                                     [(IsAgentEnabled, VBool True), (GeminiClient, VRef ref),
                                      (LastError, VNull)] ag2
                         in case speak (utteranceFates w) GREETING_MESSAGE (ttsService ag3) of
                              (tts, Rejected error) \<Rightarrow> enableFailed error (ag3\<lparr>ttsService := tts\<rparr>)
                            | (tts, _) \<Rightarrow> ag3\<lparr>ttsService := tts\<rparr>))
               | _ \<Rightarrow>
                   earcon PlayErrorEarcon
                     (showCaption ''Error: API Key missing'' (Some 3000)
                       (agent_updateState [(LastError, VStr ''API Key missing.'')] ag1)))
         else
           (let ag1 = earcon PlayDisableEarcon ag;
                ag2 = ag1\<lparr>ttsService := tts_stop (ttsService ag1)\<rparr>;
                ag3 = (if isListening (sttService ag2)
                       then ag2\<lparr>sttService := stt_abort (abortThrows w) (sttService ag2)\<rparr>
                       else ag2);
                ag4 = earcon StopAllSounds ag3;
                ag5 = destroyClient geminiClient ag4;
                ag6 = agent_updateState
                        [(IsAgentEnabled, VBool False), (GeminiClient, VNull),
                         (IsMicOpen, VBool False), (IsAgentSpeaking, VBool False),
                         (IsAgentThinking, VBool False), (LastError, VNull)] ag5
            in removeCaption ag6))"

text \<open>
  The module as a successful \<open>initializeAgent\<close> leaves it: both speech services
  supported, the two buttons (references 0 and 1) and \<open>isSupported\<close> in the shared state,
  and the key stored.
\<close>

definition initializedAgent :: "string \<Rightarrow> agent" where
  "initializedAgent apiKey =
     \<lparr>store = updateState [(IsSupported, VBool True), (AgentButtonElement, VRef 0),
                            (MicButtonElement, VRef 1), (LastError, VNull)] initialStore,
      captionsService = [], earconService = [],
      sttService = newSpeechToTextService True,
      ttsService = newTextToSpeechService True,
      agentApiKey = Some apiKey, agentModelName = None,
      clients = [], nextRef = 2\<rparr>"

subsection \<open>Test doubles for the statements below\<close>

text \<open>A language model that answers the \<open>n\<close>-th request of a session with the \<open>n\<close>-th
  entry of a script, and rejects when the script is used up.\<close>

definition scripted :: "(thrown + apiResult) list \<Rightarrow> request list \<Rightarrow> thrown + apiResult" where
  "scripted answers requests =
     (if 0 < length requests \<and> length requests \<le> length answers
      then answers ! (length requests - 1)
      else Inl (ErrorObject ''Error'' ''no answer scripted''))"

text \<open>The application when the page has loaded with no stored favourites, and
  surroundings with an empty recipe table, in which a tool called with arguments outside
  its interface rejects with a \<open>TypeError\<close> and changes nothing.\<close>

definition loadedApp :: app where
  "loadedApp =
     \<lparr>favorites = [], storedFavorites = None, currentFontSize = 16,
      baseFontSizeProperty = None, dark = False, storedTheme = None,
      sunIconHidden = False, moonIconHidden = True, searchInputValue = [],
      recipeListCards = [], favoritesListCards = [], noFavoritesMessageHidden = False,
      recipeDetail = None, recipeDetailViewHidden = True, recipeListViewHidden = False\<rparr>"

definition emptyEnv :: env where
  "emptyEnv =
     \<lparr>recipes = [], numberToString = (\<lambda>n. []), floatTimes = (\<lambda>x y. x * y),
      outsideInterface =
        (\<lambda>functionName args a.
           (a, Inl (ErrorObject ''TypeError'' ''Cannot read properties of null'')))\<rparr>"

text \<open>A turn of two batches: a search without arguments and a tool that does not exist,
  then the list of favourites, then the final text.\<close>

definition searchWithoutArgs :: FunctionCall where
  "searchWithoutArgs = \<lparr>fc_name = ''search_recipes'', fc_args = JNull\<rparr>"

definition orderPizza :: FunctionCall where
  "orderPizza = \<lparr>fc_name = ''order_pizza'', fc_args = JObj []\<rparr>"

definition listFavorites :: FunctionCall where
  "listFavorites = \<lparr>fc_name = ''list_favorites'', fc_args = JObj []\<rparr>"

definition twoBatchModel :: "request list \<Rightarrow> thrown + apiResult" where
  "twoBatchModel =
     scripted [Inr (Response (Some [searchWithoutArgs, orderPizza]) []),
               Inr (Response (Some [listFavorites]) []),
               Inr (Response None ''Done.'')]"

text \<open>A schedule on which the second call of a batch settles before the first.\<close>

definition unknownFirst :: "FunctionCall list \<Rightarrow> nat \<Rightarrow> nat" where
  "unknownFirst fcs i = (if i = 0 then 1 else 0)"

definition twoBatchClient :: "app GeminiClient" where
  "twoBatchClient =
     initializeChat None []
       (newGeminiClient twoBatchModel (Some (handleToolCall emptyEnv)) unknownFirst)"

text \<open>Surroundings in which \<open>model.startChat\<close> throws and every utterance ends.\<close>

definition failingWorld :: world where
  "failingWorld =
     \<lparr>constructorThrows = None, startChatThrows = Some (ErrorObject ''Error'' ''startChat failed''),
      languageModel = scripted [], utteranceFates = (\<lambda>i. Ends), abortThrows = None,
      toolEnv = emptyEnv, eventLoop = (\<lambda>fcs i. 0)\<rparr>"

text \<open>
  A handler whose tools resolve with a string, an array, an object and \<open>null\<close>, and
  reject; a batch with one call to each; and an initialized client with that handler
  whose model answers its first request with a final text.
\<close>

definition payloadKinds :: "string \<Rightarrow> json \<Rightarrow> unit \<Rightarrow> unit \<times> toolResult" where
  "payloadKinds functionName args a =
     (a, if functionName = ''string'' then Inr (JStr ''Guacamole'')
         else if functionName = ''array'' then Inr (JArr [JStr ''avocado'', JStr ''lime''])
         else if functionName = ''object'' then Inr (JObj [(''title'', JStr ''Guacamole'')])
         else if functionName = ''null'' then Inr JNull
         else Inl (ErrorObject ''Error'' ''out of avocados''))"

definition kindsBatch :: "FunctionCall list" where
  "kindsBatch =
     map (\<lambda>name. \<lparr>fc_name = name, fc_args = JObj []\<rparr>)
       [''string'', ''array'', ''object'', ''null'', ''rejects'']"

definition payloadKindsClient :: "unit GeminiClient" where
  "payloadKindsClient =
     initializeChat None []
       (newGeminiClient (scripted [Inr (Response None ''Done.'')]) (Some payloadKinds)
          unknownFirst)"

section \<open>Properties of the state store\<close>

lemma spread_append: "spread s (xs @ ys) = spread (spread s xs) ys"
  by (induction xs arbitrary: s) auto

lemma spread_lookup:
  "spread s u k = (case rev (map snd (filter (\<lambda>kv. fst kv = k) u)) of [] \<Rightarrow> s k | v # _ \<Rightarrow> v)"
proof (induction u arbitrary: s rule: rev_induct)
  case Nil
  show ?case by simp
next
  case (snoc x xs)
  obtain k' v where x: "x = (k', v)" by (cases x)
  show ?case using snoc[of s] by (simp add: spread_append x)
qed

lemma state_updateState: "state (updateState u st) = spread (state st) u"
  by (simp add: updateState_def Let_def)

lemma state_updateStates:
  "state (updateStates us st) = spread (state st) (concat us)"
  by (induction us arbitrary: st) (simp_all add: state_updateState spread_append)

text \<open>
  C3. After any finite sequence of \<open>updateState\<close> calls from the initial default state,
  \<open>getState()\<close> is the last-write-wins shallow merge of the partials over the defaults.
\<close>

theorem getState_last_write_wins:
  "getState (updateStates partials initialStore) = lastWriteWins defaultState partials"
proof
  fix k
  show "getState (updateStates partials initialStore) k = lastWriteWins defaultState partials k"
    by (simp add: getState_def state_updateStates initialStore_def spread_lookup
        lastWriteWins_def writes_def)
qed

theorem getState_last_write_wins_witness:
  "getState (updateStates [[(IsMicOpen, VBool True), (LastError, VStr ''e'')],
                           [(LastError, VNull)], []] initialStore) LastError = VNull
   \<and> getState (updateStates [[(IsMicOpen, VBool True), (LastError, VStr ''e'')],
                           [(LastError, VNull)], []] initialStore) IsMicOpen = VBool True
   \<and> getState (updateStates [[(IsMicOpen, VBool True), (LastError, VStr ''e'')],
                           [(LastError, VNull)], []] initialStore) IsSupported = VBool False"
  unfolding getState_last_write_wins
  by (simp add: lastWriteWins_def writes_def defaultState_def)

lemma spread_other: "k \<notin> fst ` set u \<Longrightarrow> spread s u k = s k"
  by (induction u arbitrary: s) auto

lemma hasChanged_iff: "hasChanged p n ks = (\<exists>k \<in> set ks. p k \<noteq> n k)"
  by (induction ks) auto

lemma changed_key_is_updated:
  assumes "s k \<noteq> spread s u k"
  shows "k \<in> fst ` set u"
  using assms spread_other by metis

text \<open>
  C4. \<open>updateState(partial)\<close> emits a change notification exactly when some field's value
  after the merge differs from its value before it; \<open>updateState({})\<close> never notifies.
\<close>

theorem updateState_notifies_iff_changed:
  "notifies updates st = (\<exists>k. state st k \<noteq> state (updateState updates st) k)
   \<and> \<not> notifies [] st"
proof -
  have "hasChanged (state st) (spread (state st) updates) (map fst updates)
        = (\<exists>k. state st k \<noteq> spread (state st) updates k)"
    using changed_key_is_updated[of "state st" _ updates]
    by (auto simp: hasChanged_iff)
  then have "notifies updates st = (\<exists>k. state st k \<noteq> state (updateState updates st) k)"
    by (simp add: notifies_def updateState_def Let_def)
  moreover have "\<not> notifies [] st"
    by (simp add: notifies_def updateState_def)
  ultimately show ?thesis by simp
qed

theorem updateState_notifies_iff_changed_witness:
  "notifies [(IsMicOpen, VBool True)] initialStore
   \<and> \<not> notifies [(IsMicOpen, VBool False)] initialStore
   \<and> \<not> notifies [] initialStore"
proof -
  have a: "state initialStore IsMicOpen
           \<noteq> state (updateState [(IsMicOpen, VBool True)] initialStore) IsMicOpen"
    by (simp add: updateState_def initialStore_def defaultState_def Let_def)
  have b: "\<not> (\<exists>k. state initialStore k
           \<noteq> state (updateState [(IsMicOpen, VBool False)] initialStore) k)"
    by (simp add: updateState_def initialStore_def defaultState_def Let_def)
  show ?thesis
    using a b updateState_notifies_iff_changed[of "[(IsMicOpen, VBool True)]" initialStore]
      updateState_notifies_iff_changed[of "[(IsMicOpen, VBool False)]" initialStore]
    by blast
qed

section \<open>Properties of speech capture\<close>

text \<open>
  C7, as the code has it. On a service with a recognizer that is not listening, \<open>stop()\<close>
  resolves at once with \<open>finalTranscript\<close> as it stands and changes nothing; on a fresh
  service that transcript is empty.
\<close>

theorem stop_not_listening_resolves_finalTranscript:
  "(recognition this \<and> \<not> isListening this \<longrightarrow>
      stt_stop stopThrows this = (this, Resolved (finalTranscript this)))
   \<and> stt_stop stopThrows (newSpeechToTextService True)
       = (newSpeechToTextService True, Resolved [])"
  by (simp add: stt_stop_def newSpeechToTextService_def)

lemma completedSession_eq:
  "completedSession =
     \<lparr>recognition = True, isListening = False, finalTranscript = ''hello '',
      stopPromiseResolver = False, stopPromiseRejecter = False,
      settlements = [Resolve ''hello'']\<rparr>"
  by (simp add: completedSession_def newSpeechToTextService_def stt_start_def stt_onStart_def
      stt_onResult_def stt_stop_def stt_onEnd_def stt_emit_def stt_events_def trim_def
      whiteSpace_def Let_def rejectPendingStopPromise_def)

theorem stop_not_listening_resolves_finalTranscript_witness:
  "recognition completedSession \<and> \<not> isListening completedSession
   \<and> stt_stop None completedSession = (completedSession, Resolved ''hello '')"
  using stop_not_listening_resolves_finalTranscript[of completedSession None]
  by (simp add: completedSession_eq)

text \<open>
  C7, as the specification states it, fails after a completed listen session: the service
  is not listening, and \<open>stop()\<close> resolves with the text of that session.
\<close>

theorem stop_after_session_counterexample:
  "\<not> isListening completedSession
   \<and> snd (stt_stop None completedSession) = Resolved ''hello ''
   \<and> snd (stt_stop None completedSession) \<noteq> Resolved []"
  by (simp add: completedSession_eq stt_stop_def)

text \<open>
  C8. The result handler appends the trimmed final fragments, each followed by a space, and
  keeps interim fragments out of the transcript; but it then calls \<open>emit\<close> on the missing
  \<open>events\<close> member: whatever the event, no interim event is delivered and the handler
  throws. At a result event with one final and one interim fragment:
\<close>

theorem onResult_throws_TypeError:
  "fst (snd (stt_onResult event this)) = []
   \<and> snd (snd (stt_onResult event this)) = Throws typeError
   \<and> stt_onResult \<lparr>resultIndex = 0, results = [(True, '' hello''), (False, ''wor'')]\<rparr>
        (stt_onStart (newSpeechToTextService True))
      = ((stt_onStart (newSpeechToTextService True))\<lparr>finalTranscript := ''hello ''\<rparr>,
         [], Throws typeError)"
  by (simp add: stt_onResult_def stt_emit_def stt_events_def Let_def trim_def whiteSpace_def
      stt_onStart_def newSpeechToTextService_def split: prod.splits)

section \<open>Properties of speech output\<close>







lemma star_first_Nil: "continuations (Seq (Star (NotChars cs)) x) [] = continuations x []"
  by simp




declare matchGlobal.simps [simp del]






lemma utterances_append: "utterances (a @ b) = utterances a @ utterances b"
  by (induction a rule: utterances.induct) auto

lemma speak1_Ends:
  "speak1 Ends text this = (this1, p) \<Longrightarrow>
     p = Resolved () \<and> synthCalls this1 = synthCalls this @ [Speak text]"
  by (auto simp: speak1_def Let_def)

lemma speakChunks_all_end:
  assumes "\<And>i. fates i = Ends"
  shows "snd (speakChunks fates i chunks this) = Resolved ()
       \<and> utterances (synthCalls (fst (speakChunks fates i chunks this)))
           = utterances (synthCalls this) @ chunks"
proof (induction chunks arbitrary: i this)
  case Nil
  show ?case by simp
next
  case (Cons c cs)
  obtain this1 p where s1: "speak1 Ends c this = (this1, p)" by (cases "speak1 Ends c this")
  from speak1_Ends[OF s1] have p: "p = Resolved ()"
    and c1: "synthCalls this1 = synthCalls this @ [Speak c]" by auto
  show ?case using Cons.IH[of "Suc i" this1] s1 p c1 assms
    by (simp add: utterances_append)
qed

lemma tts_stop_utterances: "utterances (synthCalls (tts_stop this)) = utterances (synthCalls this)"
  by (simp add: tts_stop_def rejectPendingSpeakPromise_def utterances_append)

lemma speak_all_end:
  assumes "synth this" "voicesLoadedPromise this = Resolved ()" "\<And>i. fates i = Ends"
    and "splitByPunctuation text = (chunks, unmatched)"
  shows "utterances (synthCalls (fst (speak fates text this)))
           = utterances (synthCalls this) @ chunks @ (if unmatched = [] then [] else [unmatched])
         \<and> snd (speak fates text this) = Resolved ()"
proof -
  define this1 where "this1 = (if isSpeakingFlag this \<or> synthPending this then tts_stop this else this)"
  have u1: "utterances (synthCalls this1) = utterances (synthCalls this)"
    by (simp add: this1_def tts_stop_utterances)
  obtain this2 p where sc: "speakChunks fates 0 chunks this1 = (this2, p)"
    by (cases "speakChunks fates 0 chunks this1")
  from speakChunks_all_end[where fates=fates and i=0 and chunks=chunks and this=this1, OF assms(3)] sc
  have p: "p = Resolved ()" and u2: "utterances (synthCalls this2) = utterances (synthCalls this1) @ chunks"
    by auto
  obtain this3 q where s3: "speak1 Ends unmatched this2 = (this3, q)"
    by (cases "speak1 Ends unmatched this2")
  from speak1_Ends[OF s3] have q: "q = Resolved ()"
    and c3: "synthCalls this3 = synthCalls this2 @ [Speak unmatched]" by auto
  have "speak fates text this =
          (if unmatched = [] then (this2, Resolved ()) else (this3, Resolved ()))"
    using assms sc p s3 q by (simp add: speak_def Let_def this1_def[symmetric])
  then show ?thesis using u1 u2 c3 by (simp add: utterances_append)
qed






section \<open>Properties of the model session client\<close>

lemma chat_client_emit [simp]: "chat (client_emit ev c) = chat c"
  and handler_client_emit [simp]: "handleToolCallConfig (client_emit ev c) = handleToolCallConfig c"
  and settleTime_client_emit [simp]: "settleTime (client_emit ev c) = settleTime c"
  and emitted_client_emit [simp]: "emitted_events (client_emit ev c) = emitted_events c @ [ev]"
  by (simp_all add: client_emit_def)

lemma settle_eq:
  "settle fc r (c, ps) = (client_emit (completionEvent fc r) c, ps @ [functionResponse fc r])"
  by (cases r) (simp_all add: settle_def Let_def completionEvent_def functionResponse_def)

lemma settleAll_eq:
  "settleAll fcs rs order (c, ps) =
     (c\<lparr>emitted_events := emitted_events c @ eventsInOrder fcs rs order\<rparr>,
      ps @ partsInOrder fcs rs order)"
proof (induction order arbitrary: c ps)
  case Nil
  show ?case by (simp add: eventsInOrder_def partsInOrder_def)
next
  case (Cons i order)
  show ?case
    by (simp add: settle_eq Cons.IH eventsInOrder_def partsInOrder_def client_emit_def)
qed

lemma dispatch_length: "dispatch handler fcs a = (a', rs) \<Longrightarrow> length rs = length fcs"
proof (induction fcs arbitrary: a rs)
  case Nil
  then show ?case by simp
next
  case (Cons fc fcs)
  then show ?case by (auto split: prod.splits)
qed

lemma settleOrder_perm:
  "distinct (settleOrder time n)" "set (settleOrder time n) = {0..<n}"
  "length (settleOrder time n) = n"
  by (simp_all add: settleOrder_def)

lemma isEnvelope_functionResponse: "isEnvelope (fr_response (functionResponse fc r))"
  by (cases r) (simp_all add: functionResponse_def)

lemma partsInOrder_enveloped:
  "list_all (\<lambda>p. isEnvelope (fr_response p)) (partsInOrder fcs rs order)"
  by (simp add: partsInOrder_def list_all_iff isEnvelope_functionResponse)

lemma completionEvent_kind:
  "\<not> isFunctionCallRequested (completionEvent fc r)"
  "\<not> isResponseComplete (completionEvent fc r)"
  by (cases r; simp add: completionEvent_def)+

lemma eventsInOrder_filter:
  "filter isFunctionCallRequested (eventsInOrder fcs rs order) = []"
  "filter isResponseComplete (eventsInOrder fcs rs order) = []"
  by (auto simp: filter_empty_conv completionEvent_kind eventsInOrder_def)

lemma handleFunctionCalls_step:
  assumes "chat c = Some ch" and "handleToolCallConfig c = Some handler"
    and "dispatch handler batch a = (a1, outs)"
    and "order = settleOrder (settleTime c batch) (length batch)"
    and "respond ch (sent ch @ [FunctionResponseParts (partsInOrder batch outs order)])
           = answer"
  shows "handleFunctionCalls n batch (c, a) =
           (case answer of
              Inl error \<Rightarrow>
                ((c\<lparr>emitted_events := emitted_events c @ FunctionCallRequested batch
                        # eventsInOrder batch outs order,
                    chat := Some (ch\<lparr>sent := sent ch
                        @ [FunctionResponseParts (partsInOrder batch outs order)]\<rparr>)\<rparr>, a1),
                 Some (Throws error))
            | Inr nextResult \<Rightarrow>
                processApiResponse n nextResult
                  (c\<lparr>emitted_events := emitted_events c @ FunctionCallRequested batch
                        # eventsInOrder batch outs order,
                    chat := Some (ch\<lparr>sent := sent ch
                        @ [FunctionResponseParts (partsInOrder batch outs order)]\<rparr>)\<rparr>, a1))"
  using assms
  by (cases answer) (simp_all add: settleAll_eq chat_sendMessage_def client_emit_def)

declare processApiResponse.simps [simp del] handleFunctionCalls.simps [simp del]

lemma processApiResponse_calls:
  "batch \<noteq> [] \<Longrightarrow>
     processApiResponse (Suc n) (Response (Some batch) t) s = handleFunctionCalls n batch s"
  by (cases batch) (simp_all add: processApiResponse.simps)

lemma processApiResponse_final:
  "calls = None \<or> calls = Some [] \<Longrightarrow>
     processApiResponse (Suc n) (Response calls t) s
       = ((client_emit (ResponseComplete (Some t) None) (fst s), snd s), Some Returns)"
  by (auto simp: processApiResponse.simps)

lemma enveloped_turn:
  "envelopedSession (fst s) \<Longrightarrow> envelopedSession (fst (fst (processApiResponse n result s)))"
  "envelopedSession (fst s) \<Longrightarrow> envelopedSession (fst (fst (handleFunctionCalls n functionCalls s)))"
proof (induct n result s and n functionCalls s rule: processApiResponse_handleFunctionCalls.induct)
  case (1 result s)
  then show ?case by (simp add: processApiResponse.simps)
next
  case (2 n result s)
  show ?case
  proof (cases result)
    case NoResponse
    then show ?thesis using 2 by (simp add: processApiResponse.simps)
  next
    case (Response functionCalls t)
    show ?thesis
    proof (cases "functionCalls = None \<or> functionCalls = Some []")
      case True
      then show ?thesis
        using 2(2) by (simp add: Response processApiResponse_final envelopedSession_def)
    next
      case False
      then obtain fc fcs where fcs: "functionCalls = Some (fc # fcs)"
        by (cases functionCalls) (auto simp: neq_Nil_conv)
      then show ?thesis
        using 2(1)[OF Response fcs refl] 2(2) by (simp add: Response processApiResponse.simps)
    qed
  qed
next
  case (3 n functionCalls s)
  obtain c a where s: "s = (c, a)" by (cases s)
  show ?case
  proof (cases "chat c")
    case None
    then show ?thesis using 3(2) by (simp add: s handleFunctionCalls.simps)
  next
    case (Some ch)
    show ?thesis
    proof (cases "handleToolCallConfig c")
      case None
      then show ?thesis using 3(2) Some by (simp add: s handleFunctionCalls.simps)
    next
      case handler: (Some handler)
      obtain a1 outs where d: "dispatch handler functionCalls a = (a1, outs)"
        by (cases "dispatch handler functionCalls a")
      define order where "order = settleOrder (settleTime c functionCalls) (length functionCalls)"
      define c1 where "c1 = c\<lparr>emitted_events := emitted_events c @ FunctionCallRequested functionCalls
                        # eventsInOrder functionCalls outs order,
                    chat := Some (ch\<lparr>sent := sent ch
                        @ [FunctionResponseParts (partsInOrder functionCalls outs order)]\<rparr>)\<rparr>"
      have inv: "envelopedSession c1"
        using 3(2) Some
        by (simp add: s c1_def envelopedSession_def partsInOrder_enveloped)
      have sa: "settleAll functionCalls outs order
                  (client_emit (FunctionCallRequested functionCalls) c, [])
                = (c\<lparr>emitted_events := emitted_events c @ FunctionCallRequested functionCalls
                        # eventsInOrder functionCalls outs order\<rparr>,
                   partsInOrder functionCalls outs order)"
        by (simp add: settleAll_eq client_emit_def)
      show ?thesis
      proof (cases "respond ch (sent ch @ [FunctionResponseParts (partsInOrder functionCalls outs order)])")
        case (Inl error)
        then show ?thesis
          using handleFunctionCalls_step[OF Some handler d order_def Inl, of n] inv
          by (simp add: s c1_def)
      next
        case (Inr nextResult)
        have h1: "chat (fst s) = Some ch" and h2: "handleToolCallConfig (fst s) = Some handler"
          using Some handler by (simp_all add: s)
        have h3: "(a1, outs) = dispatch handler functionCalls (snd s)"
          using d by (simp add: s)
        have h4: "(c\<lparr>emitted_events := emitted_events c @ FunctionCallRequested functionCalls
                        # eventsInOrder functionCalls outs order\<rparr>,
                   partsInOrder functionCalls outs order)
                  = settleAll functionCalls outs
                      (settleOrder (settleTime (fst s) functionCalls) (length functionCalls))
                      (client_emit (FunctionCallRequested functionCalls) (fst s), [])"
          using sa by (simp add: s order_def)
        have h5: "(ch\<lparr>sent := sent ch
                        @ [FunctionResponseParts (partsInOrder functionCalls outs order)]\<rparr>,
                   Inr nextResult)
                  = chat_sendMessage (FunctionResponseParts (partsInOrder functionCalls outs order)) ch"
          using Inr by (simp add: chat_sendMessage_def)
        have "envelopedSession (fst (fst (processApiResponse n nextResult (c1, a1))))"
          using 3(1)[OF h1 h2 h3 h4 h5 refl] inv by (simp add: c1_def)
        then show ?thesis
          using handleFunctionCalls_step[OF Some handler d order_def Inr, of n]
          by (simp add: s c1_def)
      qed
    qed
  qed
qed

lemma enveloped_sendMessage:
  assumes "envelopedSession c"
  shows "envelopedSession (fst (fst (sendMessage fuel u (c, a))))"
proof (cases "chat c")
  case None
  then show ?thesis by (simp add: sendMessage_def envelopedSession_def)
next
  case (Some ch)
  define ch1 where "ch1 = ch\<lparr>sent := sent ch @ [UserInput u]\<rparr>"
  define s1 where "s1 = ((client_emit Thinking c)\<lparr>chat := Some ch1\<rparr>, a)"
  have inv: "envelopedSession (fst s1)"
    using assms Some by (simp add: s1_def ch1_def envelopedSession_def)
  define r where "r = (case respond ch (sent ch @ [UserInput u]) of
                           Inl error \<Rightarrow> (s1, Some (Throws error))
                         | Inr result \<Rightarrow> processApiResponse fuel result s1)"
  have rinv: "envelopedSession (fst (fst r))"
    using inv enveloped_turn(1)[OF inv] by (simp add: r_def split: sum.splits)
  have "sendMessage fuel u (c, a) =
          (case r of
             (s2, Some (Throws error)) \<Rightarrow>
               ((client_emit (ResponseComplete None (Some error))
                   (client_emit (Error ''Failed to get response from Gemini.'' (Some error))
                      (fst s2)),
                 snd s2), Some Returns)
           | (s2, finished) \<Rightarrow> (s2, finished))"
    unfolding r_def s1_def ch1_def using Some
    by (simp add: sendMessage_def chat_sendMessage_def Let_def)
  then show ?thesis using rinv
    by (auto simp: envelopedSession_def split: prod.splits option.splits outcome.splits)
qed

lemma two_batches:
  assumes init: "chat c = Some ch" and cfg: "handleToolCallConfig c = Some handler"
    and d1: "dispatch handler batch1 a = (a1, results1)"
    and d2: "dispatch handler batch2 a1 = (a2, results2)"
    and o1: "order1 = settleOrder (settleTime c batch1) (length batch1)"
    and o2: "order2 = settleOrder (settleTime c batch2) (length batch2)"
    and p1: "parts1 = partsInOrder batch1 results1 order1"
    and p2: "parts2 = partsInOrder batch2 results2 order2"
    and m1: "respond ch (sent ch @ [UserInput u]) = Inr (Response (Some batch1) t1)"
    and m2: "respond ch (sent ch @ [UserInput u, FunctionResponseParts parts1])
               = Inr (Response (Some batch2) t2)"
    and m3: "respond ch (sent ch @ [UserInput u, FunctionResponseParts parts1,
                                   FunctionResponseParts parts2]) = Inr (Response calls3 t3)"
    and ne: "batch1 \<noteq> []" "batch2 \<noteq> []" and fin: "calls3 = None \<or> calls3 = Some []"
  shows "sendMessage (Suc (Suc (Suc n))) u (c, a) =
           ((c\<lparr>chat := Some (ch\<lparr>sent := sent ch @ [UserInput u, FunctionResponseParts parts1,
                                                   FunctionResponseParts parts2]\<rparr>),
               emitted_events := emitted_events c
                 @ [Thinking, FunctionCallRequested batch1] @ eventsInOrder batch1 results1 order1
                 @ [FunctionCallRequested batch2] @ eventsInOrder batch2 results2 order2
                 @ [ResponseComplete (Some t3) None]\<rparr>, a2),
            Some Returns)"
proof -
  define ch1 where "ch1 = ch\<lparr>sent := sent ch @ [UserInput u]\<rparr>"
  define c1 where "c1 = (client_emit Thinking c)\<lparr>chat := Some ch1\<rparr>"
  have c1: "chat c1 = Some ch1" "handleToolCallConfig c1 = Some handler"
    by (simp_all add: c1_def cfg)
  have o1': "order1 = settleOrder (settleTime c1 batch1) (length batch1)"
    by (simp add: o1 c1_def)
  have m2': "respond ch1 (sent ch1 @ [FunctionResponseParts (partsInOrder batch1 results1 order1)])
               = Inr (Response (Some batch2) t2)"
    using m2 by (simp add: ch1_def p1)
  define ch2 where "ch2 = ch1\<lparr>sent := sent ch1
                    @ [FunctionResponseParts (partsInOrder batch1 results1 order1)]\<rparr>"
  define c2 where "c2 = c1\<lparr>emitted_events := emitted_events c1 @ FunctionCallRequested batch1
                    # eventsInOrder batch1 results1 order1,
                chat := Some ch2\<rparr>"
  have c2: "chat c2 = Some ch2" "handleToolCallConfig c2 = Some handler"
    by (simp_all add: c2_def c1)
  have o2': "order2 = settleOrder (settleTime c2 batch2) (length batch2)"
    by (simp add: o2 c2_def c1_def)
  have m3': "respond ch2 (sent ch2 @ [FunctionResponseParts (partsInOrder batch2 results2 order2)])
               = Inr (Response calls3 t3)"
    using m3 by (simp add: ch2_def ch1_def p1 p2)
  define ch3 where "ch3 = ch2\<lparr>sent := sent ch2
                    @ [FunctionResponseParts (partsInOrder batch2 results2 order2)]\<rparr>"
  define c3 where "c3 = c2\<lparr>emitted_events := emitted_events c2 @ FunctionCallRequested batch2
                    # eventsInOrder batch2 results2 order2,
                   chat := Some ch3\<rparr>"
  have step1: "processApiResponse (Suc (Suc (Suc n))) (Response (Some batch1) t1) (c1, a)
             = processApiResponse (Suc (Suc n)) (Response (Some batch2) t2) (c2, a1)"
    using handleFunctionCalls_step[OF c1 d1 o1' m2', of "Suc (Suc n)"]
    by (simp add: processApiResponse_calls[OF ne(1)] c2_def ch2_def)
  have step2: "processApiResponse (Suc (Suc n)) (Response (Some batch2) t2) (c2, a1)
             = processApiResponse (Suc n) (Response calls3 t3) (c3, a2)"
    using handleFunctionCalls_step[OF c2 d2 o2' m3', of "Suc n"]
    by (simp add: processApiResponse_calls[OF ne(2)] c3_def ch3_def)
  have step3: "processApiResponse (Suc n) (Response calls3 t3) (c3, a2)
             = ((client_emit (ResponseComplete (Some t3) None) c3, a2), Some Returns)"
    by (simp add: processApiResponse_final[OF fin])
  have total: "processApiResponse (Suc (Suc (Suc n))) (Response (Some batch1) t1) (c1, a)
                 = ((client_emit (ResponseComplete (Some t3) None) c3, a2), Some Returns)"
    by (simp only: step1 step2 step3)
  have "sendMessage (Suc (Suc (Suc n))) u (c, a)
          = (case processApiResponse (Suc (Suc (Suc n))) (Response (Some batch1) t1) (c1, a) of
               (s2, Some (Throws error)) \<Rightarrow>
                 ((client_emit (ResponseComplete None (Some error))
                     (client_emit (Error ''Failed to get response from Gemini.'' (Some error))
                        (fst s2)),
                   snd s2), Some Returns)
             | (s2, finished) \<Rightarrow> (s2, finished))"
    using init m1
    by (simp add: sendMessage_def chat_sendMessage_def Let_def c1_def ch1_def)
  then show ?thesis
    unfolding total
    by (simp add: c3_def ch3_def c2_def c1_def ch2_def ch1_def client_emit_def p1 p2)
qed

lemma sentParts_append: "sentParts (xs @ ys) = sentParts xs @ sentParts ys"
  by (induction xs rule: sentParts.induct) simp_all

lemma requestedCalls_append: "requestedCalls (xs @ ys) = requestedCalls xs @ requestedCalls ys"
  by (induction xs rule: requestedCalls.induct) simp_all

lemma requestedCalls_other:
  "\<forall>ev \<in> set evs. \<not> isFunctionCallRequested ev \<Longrightarrow> requestedCalls evs = []"
  by (induction evs rule: requestedCalls.induct) simp_all

lemma requestedCalls_eventsInOrder: "requestedCalls (eventsInOrder fcs rs order) = []"
  by (rule requestedCalls_other) (auto simp: eventsInOrder_def completionEvent_kind)

lemma partsInOrder_names:
  "mset (map fr_name (partsInOrder batch outs (settleOrder time (length batch))))
     = mset (map fc_name batch)"
proof -
  have n: "fr_name (functionResponse fc r) = fc_name fc" for fc r
    by (cases r) (simp_all add: functionResponse_def)
  have "mset (map fr_name (partsInOrder batch outs (settleOrder time (length batch))))
          = image_mset (\<lambda>i. fc_name (batch ! i)) (mset (settleOrder time (length batch)))"
    by (simp add: partsInOrder_def n comp_def)
  also have "\<dots> = image_mset (\<lambda>i. fc_name (batch ! i)) (mset [0..<length batch])"
    by (simp add: settleOrder_def)
  also have "\<dots> = mset (map fc_name (map (\<lambda>i. batch ! i) [0..<length batch]))"
    by (simp add: comp_def)
  finally show ?thesis by (simp add: map_nth)
qed

lemma dispatch_nth:
  "i < length batch \<Longrightarrow>
     snd (dispatch handler batch a) ! i
       = snd (handler (fc_name (batch ! i)) (fc_args (batch ! i))
                (fst (dispatch handler (take i batch) a)))"
proof (induction batch arbitrary: a i)
  case Nil
  then show ?case by simp
next
  case (Cons fc fcs)
  show ?case
  proof (cases i)
    case 0
    then show ?thesis by (simp split: prod.splits)
  next
    case (Suc j)
    then have j: "j < length fcs" using Cons.prems by simp
    obtain a1 r where h: "handler (fc_name fc) (fc_args fc) a = (a1, r)"
      by (cases "handler (fc_name fc) (fc_args fc) a")
    have "snd (dispatch handler (fc # fcs) a) ! i = snd (dispatch handler fcs a1) ! j"
      by (simp add: Suc h split: prod.splits)
    moreover have "fst (dispatch handler (take i (fc # fcs)) a)
                     = fst (dispatch handler (take j fcs) a1)"
      by (simp add: Suc h split: prod.splits)
    ultimately show ?thesis
      using Cons.IH[OF j, of a1] by (simp add: Suc)
  qed
qed

lemma turn_invariant:
  assumes step: "\<And>c ch handler batch a a1 outs.
            P c \<Longrightarrow> chat c = Some ch \<Longrightarrow> handleToolCallConfig c = Some handler \<Longrightarrow>
            dispatch handler batch a = (a1, outs) \<Longrightarrow>
            P (c\<lparr>emitted_events := emitted_events c @ FunctionCallRequested batch
                    # eventsInOrder batch outs (settleOrder (settleTime c batch) (length batch)),
                 chat := Some (ch\<lparr>sent := sent ch
                    @ [FunctionResponseParts
                         (partsInOrder batch outs
                            (settleOrder (settleTime c batch) (length batch)))]\<rparr>)\<rparr>)"
    and final: "\<And>c t. P c \<Longrightarrow> P (client_emit (ResponseComplete (Some t) None) c)"
  shows "P (fst s) \<Longrightarrow> P (fst (fst (processApiResponse n result s)))"
    and "P (fst s) \<Longrightarrow> P (fst (fst (handleFunctionCalls n functionCalls s)))"
proof (induct n result s and n functionCalls s rule: processApiResponse_handleFunctionCalls.induct)
  case (1 result s)
  then show ?case by (simp add: processApiResponse.simps)
next
  case (2 n result s)
  show ?case
  proof (cases result)
    case NoResponse
    then show ?thesis using 2 by (simp add: processApiResponse.simps)
  next
    case (Response functionCalls t)
    show ?thesis
    proof (cases "functionCalls = None \<or> functionCalls = Some []")
      case True
      then show ?thesis
        using final[OF 2(2)] by (simp add: Response processApiResponse_final)
    next
      case False
      then obtain fc fcs where fcs: "functionCalls = Some (fc # fcs)"
        by (cases functionCalls) (auto simp: neq_Nil_conv)
      then show ?thesis
        using 2(1)[OF Response fcs refl] 2(2) by (simp add: Response processApiResponse.simps)
    qed
  qed
next
  case (3 n functionCalls s)
  obtain c a where s: "s = (c, a)" by (cases s)
  show ?case
  proof (cases "chat c")
    case None
    then show ?thesis using 3(2) by (simp add: s handleFunctionCalls.simps)
  next
    case (Some ch)
    show ?thesis
    proof (cases "handleToolCallConfig c")
      case None
      then show ?thesis using 3(2) Some by (simp add: s handleFunctionCalls.simps)
    next
      case handler: (Some handler)
      obtain a1 outs where d: "dispatch handler functionCalls a = (a1, outs)"
        by (cases "dispatch handler functionCalls a")
      define order where "order = settleOrder (settleTime c functionCalls) (length functionCalls)"
      define c1 where "c1 = c\<lparr>emitted_events := emitted_events c @ FunctionCallRequested functionCalls
                        # eventsInOrder functionCalls outs order,
                    chat := Some (ch\<lparr>sent := sent ch
                        @ [FunctionResponseParts (partsInOrder functionCalls outs order)]\<rparr>)\<rparr>"
      have inv: "P c1"
        using step[OF _ Some handler d] 3(2)
        by (simp add: s c1_def order_def)
      have sa: "settleAll functionCalls outs order
                  (client_emit (FunctionCallRequested functionCalls) c, [])
                = (c\<lparr>emitted_events := emitted_events c @ FunctionCallRequested functionCalls
                        # eventsInOrder functionCalls outs order\<rparr>,
                   partsInOrder functionCalls outs order)"
        by (simp add: settleAll_eq client_emit_def)
      show ?thesis
      proof (cases "respond ch (sent ch @ [FunctionResponseParts (partsInOrder functionCalls outs order)])")
        case (Inl error)
        then show ?thesis
          using handleFunctionCalls_step[OF Some handler d order_def Inl, of n] inv
          by (simp add: s c1_def)
      next
        case (Inr nextResult)
        have h1: "chat (fst s) = Some ch" and h2: "handleToolCallConfig (fst s) = Some handler"
          using Some handler by (simp_all add: s)
        have h3: "(a1, outs) = dispatch handler functionCalls (snd s)"
          using d by (simp add: s)
        have h4: "(c\<lparr>emitted_events := emitted_events c @ FunctionCallRequested functionCalls
                        # eventsInOrder functionCalls outs order\<rparr>,
                   partsInOrder functionCalls outs order)
                  = settleAll functionCalls outs
                      (settleOrder (settleTime (fst s) functionCalls) (length functionCalls))
                      (client_emit (FunctionCallRequested functionCalls) (fst s), [])"
          using sa by (simp add: s order_def)
        have h5: "(ch\<lparr>sent := sent ch
                        @ [FunctionResponseParts (partsInOrder functionCalls outs order)]\<rparr>,
                   Inr nextResult)
                  = chat_sendMessage (FunctionResponseParts (partsInOrder functionCalls outs order)) ch"
          using Inr by (simp add: chat_sendMessage_def)
        have "P (fst (fst (processApiResponse n nextResult (c1, a1))))"
          using 3(1)[OF h1 h2 h3 h4 h5 refl] inv by (simp add: c1_def)
        then show ?thesis
          using handleFunctionCalls_step[OF Some handler d order_def Inr, of n]
          by (simp add: s c1_def)
      qed
    qed
  qed
qed

lemma functionResponse_explicit:
  "functionResponse fc r =
     \<lparr>fr_name = fc_name fc,
      fr_response =
        (case r of
           Inr toolResult \<Rightarrow> JObj [(''result'', toolResult)]
         | Inl error \<Rightarrow>
             JObj [(''error'', JStr (''Failed to execute tool: '' @ errorMessage error))])\<rparr>"
  by (cases r) (simp_all add: functionResponse_def)

lemma sendMessage_invariant:
  assumes step: "\<And>c ch handler batch a a1 outs.
            P c \<Longrightarrow> chat c = Some ch \<Longrightarrow> handleToolCallConfig c = Some handler \<Longrightarrow>
            dispatch handler batch a = (a1, outs) \<Longrightarrow>
            P (c\<lparr>emitted_events := emitted_events c @ FunctionCallRequested batch
                    # eventsInOrder batch outs (settleOrder (settleTime c batch) (length batch)),
                 chat := Some (ch\<lparr>sent := sent ch
                    @ [FunctionResponseParts
                         (partsInOrder batch outs
                            (settleOrder (settleTime c batch) (length batch)))]\<rparr>)\<rparr>)"
    and emit: "\<And>c ev. P c \<Longrightarrow> \<not> isFunctionCallRequested ev \<Longrightarrow> P (client_emit ev c)"
    and start: "\<And>c ch. P c \<Longrightarrow> chat c = Some ch \<Longrightarrow>
                  P (c\<lparr>chat := Some (ch\<lparr>sent := sent ch @ [UserInput u]\<rparr>)\<rparr>)"
    and init: "P c"
  shows "P (fst (fst (sendMessage fuel u (c, a))))"
proof (cases "chat c")
  case None
  then show ?thesis using emit[OF init] by (simp add: sendMessage_def)
next
  case (Some ch)
  define ch1 where "ch1 = ch\<lparr>sent := sent ch @ [UserInput u]\<rparr>"
  define s1 where "s1 = ((client_emit Thinking c)\<lparr>chat := Some ch1\<rparr>, a)"
  have inv: "P (fst s1)"
    using start[OF emit[OF init, of Thinking], of ch] Some by (simp add: s1_def ch1_def)
  define r where "r = (case respond ch (sent ch @ [UserInput u]) of
                           Inl error \<Rightarrow> (s1, Some (Throws error))
                         | Inr result \<Rightarrow> processApiResponse fuel result s1)"
  have final: "\<And>c t. P c \<Longrightarrow> P (client_emit (ResponseComplete (Some t) None) c)"
    by (rule emit) simp_all
  have rinv: "P (fst (fst r))"
    using inv turn_invariant(1)[of P s1, OF step final inv]
    by (simp add: r_def split: sum.splits)
  have "sendMessage fuel u (c, a) =
          (case r of
             (s2, Some (Throws error)) \<Rightarrow>
               ((client_emit (ResponseComplete None (Some error))
                   (client_emit (Error ''Failed to get response from Gemini.'' (Some error))
                      (fst s2)),
                 snd s2), Some Returns)
           | (s2, finished) \<Rightarrow> (s2, finished))"
    unfolding r_def s1_def ch1_def using Some
    by (simp add: sendMessage_def chat_sendMessage_def Let_def)
  then show ?thesis using rinv emit[OF emit[OF rinv]]
    by (auto split: prod.splits option.splits outcome.splits)
qed

lemma answered_step:
  assumes "everyCallAnswered c" and "chat c = Some ch"
  shows "everyCallAnswered
           (c\<lparr>emitted_events := emitted_events c @ FunctionCallRequested batch
                    # eventsInOrder batch outs (settleOrder (settleTime c batch) (length batch)),
                 chat := Some (ch\<lparr>sent := sent ch
                    @ [FunctionResponseParts
                         (partsInOrder batch outs
                            (settleOrder (settleTime c batch) (length batch)))]\<rparr>)\<rparr>)"
  using assms partsInOrder_names[of batch outs "settleTime c batch"]
  by (simp add: everyCallAnswered_def sentParts_append requestedCalls_append
      requestedCalls_eventsInOrder)

lemma answered_emit:
  assumes "everyCallAnswered c" and "\<not> isFunctionCallRequested ev"
  shows "everyCallAnswered (client_emit ev c)"
  using assms requestedCalls_other[of "[ev]"]
  by (simp add: everyCallAnswered_def requestedCalls_append split: option.splits)

lemma answered_sendMessage:
  assumes "everyCallAnswered c"
  shows "everyCallAnswered (fst (fst (sendMessage fuel u (c, a))))"
proof (rule sendMessage_invariant[where P = everyCallAnswered, OF _ _ _ assms])
  show "\<And>c ch handler batch a a1 outs.
            everyCallAnswered c \<Longrightarrow> chat c = Some ch \<Longrightarrow> handleToolCallConfig c = Some handler \<Longrightarrow>
            dispatch handler batch a = (a1, outs) \<Longrightarrow>
            everyCallAnswered (c\<lparr>emitted_events := emitted_events c @ FunctionCallRequested batch
                    # eventsInOrder batch outs (settleOrder (settleTime c batch) (length batch)),
                 chat := Some (ch\<lparr>sent := sent ch
                    @ [FunctionResponseParts
                         (partsInOrder batch outs
                            (settleOrder (settleTime c batch) (length batch)))]\<rparr>)\<rparr>)"
    by (rule answered_step)
  show "\<And>c ev. everyCallAnswered c \<Longrightarrow> \<not> isFunctionCallRequested ev
           \<Longrightarrow> everyCallAnswered (client_emit ev c)"
    by (rule answered_emit)
  show "\<And>c ch. everyCallAnswered c \<Longrightarrow> chat c = Some ch \<Longrightarrow>
          everyCallAnswered (c\<lparr>chat := Some (ch\<lparr>sent := sent ch @ [UserInput u]\<rparr>)\<rparr>)"
    by (simp add: everyCallAnswered_def sentParts_append)
qed

lemma sent_grows:
  assumes "chat (fst s) = Some earlier" and "sent earlier = base @ already"
  shows "\<exists>ch1 rest. chat (fst (fst (processApiResponse n result s))) = Some ch1
            \<and> sent ch1 = base @ rest"
proof -
  define P where "P = (\<lambda>c :: 'a GeminiClient. \<exists>ch1 rest. chat c = Some ch1 \<and> sent ch1 = base @ rest)"
  have "P (fst (fst (processApiResponse n result s)))"
  proof (rule turn_invariant(1)[where P = P])
    show "P (fst s)" using assms by (auto simp: P_def)
  next
    fix c :: "'a GeminiClient" and t
    assume "P c"
    then show "P (client_emit (ResponseComplete (Some t) None) c)" by (simp add: P_def)
  next
    fix c :: "'a GeminiClient" and ch handler batch and a a1 :: 'a and outs
    assume "P c" "chat c = Some ch"
    then show "P (c\<lparr>emitted_events := emitted_events c @ FunctionCallRequested batch
                    # eventsInOrder batch outs (settleOrder (settleTime c batch) (length batch)),
                 chat := Some (ch\<lparr>sent := sent ch
                    @ [FunctionResponseParts
                         (partsInOrder batch outs
                            (settleOrder (settleTime c batch) (length batch)))]\<rparr>)\<rparr>)"
      by (auto simp: P_def)
  qed
  then show ?thesis by (simp add: P_def)
qed

text \<open>
  C5. On an initialized session whose first response carries no tool call (\<open>functionCalls()\<close>
  gives \<open>undefined\<close> or an empty array), \<open>sendMessage\<close> returns, whatever number of
  responses it may process beyond the first, and the events it emits are exactly \<open>thinking\<close>
  followed by \<open>responseComplete\<close> with the text of that response: no
  \<open>functionCallRequested\<close>, no second \<open>thinking\<close> or \<open>responseComplete\<close>.
\<close>

theorem sendMessage_without_tool_calls:
  assumes "chat c = Some ch"
    and "respond ch (sent ch @ [UserInput u]) = Inr (Response functionCalls t)"
    and "functionCalls = None \<or> functionCalls = Some []"
  shows "sendMessage (Suc n) u (c, a) =
           ((c\<lparr>chat := Some (ch\<lparr>sent := sent ch @ [UserInput u]\<rparr>),
               emitted_events := emitted_events c @ [Thinking, ResponseComplete (Some t) None]\<rparr>, a),
            Some Returns)"
  using assms(1,2)
  by (simp add: sendMessage_def chat_sendMessage_def Let_def client_emit_def
      processApiResponse_final[OF assms(3)])

theorem sendMessage_without_tool_calls_witness:
  "sendMessage 1 ''hi''
     (initializeChat None []
        (newGeminiClient (scripted [Inr (Response None ''Hello.'')])
           (Some (handleToolCall emptyEnv)) (\<lambda>fcs i. 0)), loadedApp)
   = ((\<lparr>model = scripted [Inr (Response None ''Hello.'')],
        chat = Some \<lparr>respond = scripted [Inr (Response None ''Hello.'')],
                     sent = [UserInput ''hi'']\<rparr>,
        handleToolCallConfig = Some (handleToolCall emptyEnv),
        subscribed = False,
        emitted_events = [ChatInitialized, Thinking, ResponseComplete (Some ''Hello.'') None],
        settleTime = (\<lambda>fcs i. 0)\<rparr>,
       loadedApp), Some Returns)"
proof -
  let ?m = "scripted [Inr (Response None ''Hello.'')]"
  let ?c = "initializeChat None []
              (newGeminiClient ?m (Some (handleToolCall emptyEnv)) (\<lambda>fcs i. 0))"
  let ?ch = "\<lparr>respond = ?m, sent = []\<rparr>"
  have a: "chat ?c = Some ?ch"
    by (simp add: initializeChat_def newGeminiClient_def client_emit_def)
  have b: "respond ?ch (sent ?ch @ [UserInput ''hi'']) = Inr (Response None ''Hello.'')"
    by (simp add: scripted_def)
  have c: "(None :: FunctionCall list option) = None \<or> None = Some []" by simp
  show ?thesis
    using sendMessage_without_tool_calls[OF a b c, of 0 loadedApp]
    by (simp add: initializeChat_def newGeminiClient_def client_emit_def)
qed

text \<open>
  C2. The model answers the user's text with a batch of tool calls, the results of that
  batch with a second batch, and the results of the second with a final text. Then
  \<open>sendMessage\<close> returns as soon as it may process three responses, whatever the tools
  do, rejections included, and in whatever order the calls of a batch settle. The events
  of the turn are \<open>thinking\<close>, the first batch and its completions, the second batch
  and its completions, and last the only \<open>responseComplete\<close>, with the final text:
  exactly two batches are dispatched before it. The parts sent back for a batch are one
  for each call, in the order of settling, each made from the call and its own result
  alone: an error payload for a rejected call, the wrapped result otherwise.
\<close>

theorem two_batches_then_final_text:
  assumes "chat c = Some ch" and "handleToolCallConfig c = Some handler"
    and "dispatch handler batch1 a = (a1, results1)"
    and "dispatch handler batch2 a1 = (a2, results2)"
    and "order1 = settleOrder (settleTime c batch1) (length batch1)"
    and "order2 = settleOrder (settleTime c batch2) (length batch2)"
    and "parts1 = partsInOrder batch1 results1 order1"
    and "parts2 = partsInOrder batch2 results2 order2"
    and "respond ch (sent ch @ [UserInput u]) = Inr (Response (Some batch1) t1)"
    and "respond ch (sent ch @ [UserInput u, FunctionResponseParts parts1])
           = Inr (Response (Some batch2) t2)"
    and "respond ch (sent ch @ [UserInput u, FunctionResponseParts parts1,
                               FunctionResponseParts parts2]) = Inr (Response calls3 t3)"
    and "batch1 \<noteq> []" and "batch2 \<noteq> []" and "calls3 = None \<or> calls3 = Some []"
    and "turnEvents = [Thinking, FunctionCallRequested batch1]
                        @ eventsInOrder batch1 results1 order1
                        @ [FunctionCallRequested batch2]
                        @ eventsInOrder batch2 results2 order2
                        @ [ResponseComplete (Some t3) None]"
  shows "sendMessage (Suc (Suc (Suc n))) u (c, a) =
           ((c\<lparr>chat := Some (ch\<lparr>sent := sent ch @ [UserInput u, FunctionResponseParts parts1,
                                                   FunctionResponseParts parts2]\<rparr>),
               emitted_events := emitted_events c @ turnEvents\<rparr>, a2),
            Some Returns)
       \<and> filter isFunctionCallRequested turnEvents
           = [FunctionCallRequested batch1, FunctionCallRequested batch2]
       \<and> filter isResponseComplete turnEvents = [ResponseComplete (Some t3) None]
       \<and> last turnEvents = ResponseComplete (Some t3) None
       \<and> distinct order1 \<and> set order1 = {0..<length batch1} \<and> length results1 = length batch1
       \<and> distinct order2 \<and> set order2 = {0..<length batch2} \<and> length results2 = length batch2
       \<and> parts1 = map (\<lambda>i. functionResponse (batch1 ! i) (results1 ! i)) order1
       \<and> parts2 = map (\<lambda>i. functionResponse (batch2 ! i) (results2 ! i)) order2
       \<and> (\<forall>fc error. functionResponse fc (Inl error) =
             \<lparr>fr_name = fc_name fc,
              fr_response =
                JObj [(''error'', JStr (''Failed to execute tool: '' @ errorMessage error))]\<rparr>)
       \<and> (\<forall>fc toolResult. functionResponse fc (Inr toolResult) =
             \<lparr>fr_name = fc_name fc, fr_response = JObj [(''result'', toolResult)]\<rparr>)"
proof -
  have l1: "length results1 = length batch1" using dispatch_length[OF assms(3)] .
  have l2: "length results2 = length batch2" using dispatch_length[OF assms(4)] .
  have run: "sendMessage (Suc (Suc (Suc n))) u (c, a) =
           ((c\<lparr>chat := Some (ch\<lparr>sent := sent ch @ [UserInput u, FunctionResponseParts parts1,
                                                   FunctionResponseParts parts2]\<rparr>),
               emitted_events := emitted_events c @ turnEvents\<rparr>, a2),
            Some Returns)"
    unfolding assms(15)
    by (rule two_batches[OF assms(1-14)])
  have f1: "filter isFunctionCallRequested turnEvents
           = [FunctionCallRequested batch1, FunctionCallRequested batch2]"
    by (simp add: assms(15) eventsInOrder_filter)
  have f2: "filter isResponseComplete turnEvents = [ResponseComplete (Some t3) None]"
    by (simp add: assms(15) eventsInOrder_filter)
  have f3: "last turnEvents = ResponseComplete (Some t3) None"
    by (simp add: assms(15))
  have p: "distinct order1" "set order1 = {0..<length batch1}"
    "distinct order2" "set order2 = {0..<length batch2}"
    by (simp_all add: assms(5,6) settleOrder_perm)
  show ?thesis
    using run f1 f2 f3 l1 l2 p
    by (simp add: assms(7,8) partsInOrder_def functionResponse_def)
qed

lemma twoBatchClient_chat:
  "chat twoBatchClient = Some \<lparr>respond = twoBatchModel, sent = []\<rparr>"
  "handleToolCallConfig twoBatchClient = Some (handleToolCall emptyEnv)"
  "emitted_events twoBatchClient = [ChatInitialized]"
  "settleTime twoBatchClient = unknownFirst"
  by (simp_all add: twoBatchClient_def initializeChat_def newGeminiClient_def client_emit_def)

lemma dispatch_batch1:
  "dispatch (handleToolCall emptyEnv) [searchWithoutArgs, orderPizza] loadedApp
     = (loadedApp, [Inl (ErrorObject ''TypeError'' ''Cannot read properties of null''),
                    Inr (JStr ''Error: Tool order_pizza is not available.'')])"
  by (simp add: searchWithoutArgs_def orderPizza_def handleToolCall_def withArgs_def
      asSearchRecipesArgs_def emptyEnv_def)

lemma dispatch_batch2:
  "dispatch (handleToolCall emptyEnv) [listFavorites] loadedApp
     = (loadedApp, [Inr (JArr [])])"
  by (simp add: listFavorites_def handleToolCall_def resolved_def list_favorites_def
      emptyEnv_def)

lemma unknownFirst_order:
  "settleOrder (unknownFirst fcs) (Suc (Suc 0)) = [Suc 0, 0]"
  "settleOrder (unknownFirst fcs) (Suc 0) = [0]"
  by (simp_all add: settleOrder_def unknownFirst_def upt_rec)

theorem two_batches_then_final_text_witness:
  "sendMessage (Suc (Suc (Suc 0))) ''hi'' (twoBatchClient, loadedApp) =
     ((twoBatchClient
         \<lparr>chat := Some \<lparr>respond = twoBatchModel,
             sent = [UserInput ''hi'',
                     FunctionResponseParts
                       [\<lparr>fr_name = ''order_pizza'',
                         fr_response = JObj [(''result'',
                           JStr ''Error: Tool order_pizza is not available.'')]\<rparr>,
                        \<lparr>fr_name = ''search_recipes'',
                         fr_response =
                           JObj [(''error'',
                                  JStr ''Failed to execute tool: Cannot read properties of null'')]\<rparr>],
                     FunctionResponseParts
                       [\<lparr>fr_name = ''list_favorites'',
                         fr_response = JObj [(''result'', JArr [])]\<rparr>]]\<rparr>,
          emitted_events :=
            [ChatInitialized, Thinking,
             FunctionCallRequested [searchWithoutArgs, orderPizza],
             FunctionCallCompleted ''order_pizza'' (JObj [])
               (JObj [(''result'', JStr ''Error: Tool order_pizza is not available.'')]),
             Error ''Error executing tool search_recipes''
               (Some (ErrorObject ''TypeError'' ''Cannot read properties of null'')),
             FunctionCallRequested [listFavorites],
             FunctionCallCompleted ''list_favorites'' (JObj []) (JObj [(''result'', JArr [])]),
             ResponseComplete (Some ''Done.'') None]\<rparr>,
       loadedApp), Some Returns)"
proof -
  let ?ch = "\<lparr>respond = twoBatchModel, sent = []\<rparr>"
  let ?b1 = "[searchWithoutArgs, orderPizza]"
  let ?b2 = "[listFavorites]"
  let ?r1 = "[Inl (ErrorObject ''TypeError'' ''Cannot read properties of null''),
              Inr (JStr ''Error: Tool order_pizza is not available.'')]"
  let ?r2 = "[Inr (JArr [])] :: toolResult list"
  let ?o1 = "settleOrder (settleTime twoBatchClient ?b1) (length ?b1)"
  let ?o2 = "settleOrder (settleTime twoBatchClient ?b2) (length ?b2)"
  let ?p1 = "partsInOrder ?b1 ?r1 ?o1"
  let ?p2 = "partsInOrder ?b2 ?r2 ?o2"
  have m1: "respond ?ch (sent ?ch @ [UserInput ''hi'']) = Inr (Response (Some ?b1) [])"
    by (simp add: twoBatchModel_def scripted_def)
  have m2: "respond ?ch (sent ?ch @ [UserInput ''hi'', FunctionResponseParts ?p1])
              = Inr (Response (Some ?b2) [])"
    by (simp add: twoBatchModel_def scripted_def)
  have m3: "respond ?ch (sent ?ch @ [UserInput ''hi'', FunctionResponseParts ?p1,
              FunctionResponseParts ?p2]) = Inr (Response None ''Done.'')"
    by (simp add: twoBatchModel_def scripted_def)
  have fin: "(None :: FunctionCall list option) = None \<or> None = Some []" by simp
  have ne: "?b1 \<noteq> []" "?b2 \<noteq> []" by simp_all
  from two_batches_then_final_text[OF twoBatchClient_chat(1,2) dispatch_batch1 dispatch_batch2
      refl refl refl refl m1 m2 m3 ne fin refl, of 0]
  show ?thesis
    by (simp add: twoBatchClient_chat(3,4) unknownFirst_order partsInOrder_def eventsInOrder_def
        functionResponse_def completionEvent_def
        searchWithoutArgs_def orderPizza_def listFavorites_def)
qed

text \<open>
  C6. A batch of tool calls handled on an initialized session with a configured handler.
  The tools run in the order of the calls, each on the state its predecessors leave. What
  is then sent to the model is one request with one part for each call, in the order in
  which the calls settle: the part of a call has the name of the call and, as its
  response, the object \<open>{result: v}\<close> when the call resolved with \<open>v\<close> (a string, an
  array, an object, \<open>null\<close>), and the object
  \<open>{error: 'Failed to execute tool: ' + message}\<close> when it rejected. Every such part is
  an object envelope, and the request stays in the session whatever the model answers
  and however long the turn goes on. A response with calls is handled in this way, and a
  settled callback pushes exactly such a part. Over a whole turn of any length, every
  part sent is an object envelope, and the parts sent bear the names of the calls
  requested, each as often.
\<close>

theorem function_response_is_envelope:
  "(chat c = Some ch \<and> handleToolCallConfig c = Some handler
      \<and> dispatch handler batch a = (a', outs)
      \<and> order = settleOrder (settleTime c batch) (length batch)
      \<and> parts = map (\<lambda>i. \<lparr>fr_name = fc_name (batch ! i),
                            fr_response =
                              (case outs ! i of
                                 Inr toolResult \<Rightarrow> JObj [(''result'', toolResult)]
                               | Inl error \<Rightarrow>
                                   JObj [(''error'',
                                          JStr (''Failed to execute tool: ''
                                                  @ errorMessage error))])\<rparr>) order
      \<and> c' = c\<lparr>emitted_events := emitted_events c @ FunctionCallRequested batch
                     # eventsInOrder batch outs order,
                 chat := Some (ch\<lparr>sent := sent ch @ [FunctionResponseParts parts]\<rparr>)\<rparr>
    \<longrightarrow> handleFunctionCalls n batch (c, a)
          = (case respond ch (sent ch @ [FunctionResponseParts parts]) of
               Inl error \<Rightarrow> ((c', a'), Some (Throws error))
             | Inr nextResult \<Rightarrow> processApiResponse n nextResult (c', a'))
      \<and> (\<exists>ch1 rest. chat (fst (fst (handleFunctionCalls n batch (c, a)))) = Some ch1
             \<and> sent ch1 = sent ch @ FunctionResponseParts parts # rest)
      \<and> length outs = length batch \<and> length parts = length batch
      \<and> distinct order \<and> set order = {0..<length batch}
      \<and> (\<forall>i<length batch.
            outs ! i = snd (handler (fc_name (batch ! i)) (fc_args (batch ! i))
                              (fst (dispatch handler (take i batch) a))))
      \<and> list_all (\<lambda>p. isEnvelope (fr_response p)) parts)
   \<and> (batch \<noteq> [] \<longrightarrow>
        processApiResponse (Suc n) (Response (Some batch) t) (c, a)
          = handleFunctionCalls n batch (c, a))
   \<and> snd (settle fc r (c, ps))
       = ps @ [\<lparr>fr_name = fc_name fc,
                 fr_response =
                   (case r of
                      Inr toolResult \<Rightarrow> JObj [(''result'', toolResult)]
                    | Inl error \<Rightarrow>
                        JObj [(''error'',
                               JStr (''Failed to execute tool: '' @ errorMessage error))])\<rparr>]
   \<and> isEnvelope (fr_response (last (snd (settle fc r (c, ps)))))
   \<and> isEnvelope (fr_response (functionResponse fc r))
   \<and> snd (settle fc r (c, ps)) = ps @ [functionResponse fc r]
   \<and> (envelopedSession c \<longrightarrow> envelopedSession (fst (fst (sendMessage fuel u (c, a)))))
   \<and> (everyCallAnswered c \<longrightarrow> everyCallAnswered (fst (fst (sendMessage fuel u (c, a)))))"
proof -
  have step: "handleFunctionCalls n batch (c, a)
          = (case respond ch (sent ch @ [FunctionResponseParts parts]) of
               Inl error \<Rightarrow> ((c', a'), Some (Throws error))
             | Inr nextResult \<Rightarrow> processApiResponse n nextResult (c', a'))
      \<and> (\<exists>ch1 rest. chat (fst (fst (handleFunctionCalls n batch (c, a)))) = Some ch1
             \<and> sent ch1 = sent ch @ FunctionResponseParts parts # rest)
      \<and> length outs = length batch \<and> length parts = length batch
      \<and> distinct order \<and> set order = {0..<length batch}
      \<and> (\<forall>i<length batch.
            outs ! i = snd (handler (fc_name (batch ! i)) (fc_args (batch ! i))
                              (fst (dispatch handler (take i batch) a))))
      \<and> list_all (\<lambda>p. isEnvelope (fr_response p)) parts"
    if h: "chat c = Some ch" "handleToolCallConfig c = Some handler"
      "dispatch handler batch a = (a', outs)"
      "order = settleOrder (settleTime c batch) (length batch)"
      "parts = map (\<lambda>i. \<lparr>fr_name = fc_name (batch ! i),
                            fr_response =
                              (case outs ! i of
                                 Inr toolResult \<Rightarrow> JObj [(''result'', toolResult)]
                               | Inl error \<Rightarrow>
                                   JObj [(''error'',
                                          JStr (''Failed to execute tool: ''
                                                  @ errorMessage error))])\<rparr>) order"
      "c' = c\<lparr>emitted_events := emitted_events c @ FunctionCallRequested batch
                     # eventsInOrder batch outs order,
                 chat := Some (ch\<lparr>sent := sent ch @ [FunctionResponseParts parts]\<rparr>)\<rparr>"
  proof -
    have p: "parts = partsInOrder batch outs order"
      by (simp add: h(5) partsInOrder_def functionResponse_explicit)
    have eq: "handleFunctionCalls n batch (c, a)
          = (case respond ch (sent ch @ [FunctionResponseParts parts]) of
               Inl error \<Rightarrow> ((c', a'), Some (Throws error))
             | Inr nextResult \<Rightarrow> processApiResponse n nextResult (c', a'))"
      unfolding h(6) p
      by (rule handleFunctionCalls_step[OF h(1,2,3,4) refl])
    have c': "chat c' = Some (ch\<lparr>sent := sent ch @ [FunctionResponseParts parts]\<rparr>)"
      by (simp add: h(6))
    have grows: "\<exists>ch1 rest. chat (fst (fst (handleFunctionCalls n batch (c, a)))) = Some ch1
             \<and> sent ch1 = sent ch @ FunctionResponseParts parts # rest"
    proof (cases "respond ch (sent ch @ [FunctionResponseParts parts])")
      case (Inl error)
      then show ?thesis by (simp add: eq c')
    next
      case (Inr nextResult)
      have "\<exists>ch1 rest. chat (fst (fst (processApiResponse n nextResult (c', a')))) = Some ch1
              \<and> sent ch1 = (sent ch @ [FunctionResponseParts parts]) @ rest"
        by (rule sent_grows[where already = "[]"
              and earlier = "ch\<lparr>sent := sent ch @ [FunctionResponseParts parts]\<rparr>"])
           (simp_all add: c')
      then show ?thesis by (simp add: eq Inr)
    qed
    have l: "length outs = length batch" using dispatch_length[OF h(3)] .
    have tie: "\<forall>i<length batch.
            outs ! i = snd (handler (fc_name (batch ! i)) (fc_args (batch ! i))
                              (fst (dispatch handler (take i batch) a)))"
      using dispatch_nth[of _ batch handler a] by (simp add: h(3))
    have env: "list_all (\<lambda>p. isEnvelope (fr_response p)) parts"
      unfolding p by (rule partsInOrder_enveloped)
    have lp: "length parts = length batch"
      by (simp add: p partsInOrder_def h(4) settleOrder_perm)
    show ?thesis
      using eq grows l lp tie env by (simp add: h(4) settleOrder_perm)
  qed
  have calls: "batch \<noteq> [] \<longrightarrow>
        processApiResponse (Suc n) (Response (Some batch) t) (c, a)
          = handleFunctionCalls n batch (c, a)"
    by (simp add: processApiResponse_calls)
  have s1: "snd (settle fc r (c, ps)) = ps @ [functionResponse fc r]"
    by (simp add: settle_eq)
  have s2: "isEnvelope (fr_response (functionResponse fc r))"
    by (rule isEnvelope_functionResponse)
  have s3: "isEnvelope (fr_response (last (snd (settle fc r (c, ps)))))"
    by (simp add: s1 s2)
  have s4: "snd (settle fc r (c, ps))
       = ps @ [\<lparr>fr_name = fc_name fc,
                 fr_response =
                   (case r of
                      Inr toolResult \<Rightarrow> JObj [(''result'', toolResult)]
                    | Inl error \<Rightarrow>
                        JObj [(''error'',
                               JStr (''Failed to execute tool: '' @ errorMessage error))])\<rparr>]"
    by (simp add: s1 functionResponse_explicit)
  have i1: "envelopedSession c \<longrightarrow> envelopedSession (fst (fst (sendMessage fuel u (c, a))))"
    by (simp add: enveloped_sendMessage)
  have i2: "everyCallAnswered c \<longrightarrow> everyCallAnswered (fst (fst (sendMessage fuel u (c, a))))"
    by (simp add: answered_sendMessage)
  from step calls s1 s2 s3 s4 i1 i2 show ?thesis by blast
qed

theorem function_response_is_envelope_witness:
  "handleFunctionCalls (Suc 0) kindsBatch (payloadKindsClient, ())
     = ((payloadKindsClient
           \<lparr>emitted_events :=
              [ChatInitialized,
               FunctionCallRequested kindsBatch,
               FunctionCallCompleted ''array'' (JObj [])
                 (JObj [(''result'', JArr [JStr ''avocado'', JStr ''lime''])]),
               FunctionCallCompleted ''object'' (JObj [])
                 (JObj [(''result'', JObj [(''title'', JStr ''Guacamole'')])]),
               FunctionCallCompleted ''null'' (JObj []) (JObj [(''result'', JNull)]),
               Error ''Error executing tool rejects''
                 (Some (ErrorObject ''Error'' ''out of avocados'')),
               FunctionCallCompleted ''string'' (JObj [])
                 (JObj [(''result'', JStr ''Guacamole'')]),
               ResponseComplete (Some ''Done.'') None],
            chat := Some
              \<lparr>respond = scripted [Inr (Response None ''Done.'')],
               sent =
                 [FunctionResponseParts
                    [\<lparr>fr_name = ''array'',
                      fr_response = JObj [(''result'', JArr [JStr ''avocado'', JStr ''lime''])]\<rparr>,
                     \<lparr>fr_name = ''object'',
                      fr_response = JObj [(''result'', JObj [(''title'', JStr ''Guacamole'')])]\<rparr>,
                     \<lparr>fr_name = ''null'', fr_response = JObj [(''result'', JNull)]\<rparr>,
                     \<lparr>fr_name = ''rejects'',
                      fr_response =
                        JObj [(''error'', JStr ''Failed to execute tool: out of avocados'')]\<rparr>,
                     \<lparr>fr_name = ''string'',
                      fr_response = JObj [(''result'', JStr ''Guacamole'')]\<rparr>]]\<rparr>\<rparr>,
         ()), Some Returns)
   \<and> processApiResponse (Suc (Suc 0)) (Response (Some kindsBatch) []) (payloadKindsClient, ())
       = handleFunctionCalls (Suc 0) kindsBatch (payloadKindsClient, ())
   \<and> envelopedSession twoBatchClient
   \<and> envelopedSession (fst (fst (sendMessage 3 ''hi'' (twoBatchClient, loadedApp))))
   \<and> everyCallAnswered twoBatchClient
   \<and> everyCallAnswered (fst (fst (sendMessage 3 ''hi'' (twoBatchClient, loadedApp))))"
proof -
  let ?m = "scripted [Inr (Response None ''Done.'')]"
  let ?ch = "\<lparr>respond = ?m, sent = []\<rparr>"
  let ?outs = "[Inr (JStr ''Guacamole''), Inr (JArr [JStr ''avocado'', JStr ''lime'']),
                Inr (JObj [(''title'', JStr ''Guacamole'')]), Inr JNull,
                Inl (ErrorObject ''Error'' ''out of avocados'')] :: toolResult list"
  let ?order = "[1, 2, 3, 4, 0] :: nat list"
  let ?parts = "map (\<lambda>i. \<lparr>fr_name = fc_name (kindsBatch ! i),
                            fr_response =
                              (case ?outs ! i of
                                 Inr toolResult \<Rightarrow> JObj [(''result'', toolResult)]
                               | Inl error \<Rightarrow>
                                   JObj [(''error'',
                                          JStr (''Failed to execute tool: ''
                                                  @ errorMessage error))])\<rparr>) ?order"
  let ?c = "payloadKindsClient
              \<lparr>emitted_events := emitted_events payloadKindsClient
                 @ FunctionCallRequested kindsBatch # eventsInOrder kindsBatch ?outs ?order,
               chat := Some (?ch\<lparr>sent := sent ?ch @ [FunctionResponseParts ?parts]\<rparr>)\<rparr>"
  have c: "chat payloadKindsClient = Some ?ch"
    "handleToolCallConfig payloadKindsClient = Some payloadKinds"
    "emitted_events payloadKindsClient = [ChatInitialized]"
    "settleTime payloadKindsClient = unknownFirst"
    by (simp_all add: payloadKindsClient_def initializeChat_def newGeminiClient_def
        client_emit_def)
  have d: "dispatch payloadKinds kindsBatch () = ((), ?outs)"
    by (simp add: kindsBatch_def payloadKinds_def)
  have o: "?order = settleOrder (settleTime payloadKindsClient kindsBatch) (length kindsBatch)"
    by (simp add: c(4) kindsBatch_def settleOrder_def unknownFirst_def upt_rec)
  have ne: "kindsBatch \<noteq> []" by (simp add: kindsBatch_def)
  have hyps: "chat payloadKindsClient = Some ?ch
      \<and> handleToolCallConfig payloadKindsClient = Some payloadKinds
      \<and> dispatch payloadKinds kindsBatch () = ((), ?outs)
      \<and> ?order = settleOrder (settleTime payloadKindsClient kindsBatch) (length kindsBatch)
      \<and> ?parts = ?parts \<and> ?c = ?c"
    using c(1,2) d o by simp
  note run = function_response_is_envelope[where c = payloadKindsClient and ch = ?ch
      and handler = payloadKinds and batch = kindsBatch and a = "()" and a' = "()"
      and outs = ?outs and order = ?order and parts = ?parts and c' = ?c and n = "Suc 0"
      and t = "[]"]
  have step: "handleFunctionCalls (Suc 0) kindsBatch (payloadKindsClient, ())
          = (case respond ?ch (sent ?ch @ [FunctionResponseParts ?parts]) of
               Inl error \<Rightarrow> ((?c, ()), Some (Throws error))
             | Inr nextResult \<Rightarrow> processApiResponse (Suc 0) nextResult (?c, ()))"
    using run hyps by blast
  have calls: "processApiResponse (Suc (Suc 0)) (Response (Some kindsBatch) []) (payloadKindsClient, ())
       = handleFunctionCalls (Suc 0) kindsBatch (payloadKindsClient, ())"
    using run ne by blast
  have answer: "respond ?ch (sent ?ch @ [FunctionResponseParts ?parts]) = Inr (Response None ''Done.'')"
    by (simp add: scripted_def)
  have fin: "(None :: FunctionCall list option) = None \<or> None = Some []" by simp
  have first: "handleFunctionCalls (Suc 0) kindsBatch (payloadKindsClient, ())
                 = ((client_emit (ResponseComplete (Some ''Done.'') None) ?c, ()), Some Returns)"
    unfolding step answer by (simp add: processApiResponse_final[OF fin])
  have e: "envelopedSession twoBatchClient"
    by (simp add: envelopedSession_def twoBatchClient_chat)
  have f: "everyCallAnswered twoBatchClient"
    by (simp add: everyCallAnswered_def twoBatchClient_chat)
  note turn = function_response_is_envelope[where c = twoBatchClient and fuel = 3
      and u = "''hi''" and a = loadedApp]
  have e1: "envelopedSession (fst (fst (sendMessage 3 ''hi'' (twoBatchClient, loadedApp))))"
    using turn e by blast
  have f1: "everyCallAnswered (fst (fst (sendMessage 3 ''hi'' (twoBatchClient, loadedApp))))"
    using turn f by blast
  have shape: "client_emit (ResponseComplete (Some ''Done.'') None) ?c
     = payloadKindsClient
           \<lparr>emitted_events :=
              [ChatInitialized,
               FunctionCallRequested kindsBatch,
               FunctionCallCompleted ''array'' (JObj [])
                 (JObj [(''result'', JArr [JStr ''avocado'', JStr ''lime''])]),
               FunctionCallCompleted ''object'' (JObj [])
                 (JObj [(''result'', JObj [(''title'', JStr ''Guacamole'')])]),
               FunctionCallCompleted ''null'' (JObj []) (JObj [(''result'', JNull)]),
               Error ''Error executing tool rejects''
                 (Some (ErrorObject ''Error'' ''out of avocados'')),
               FunctionCallCompleted ''string'' (JObj [])
                 (JObj [(''result'', JStr ''Guacamole'')]),
               ResponseComplete (Some ''Done.'') None],
            chat := Some
              \<lparr>respond = scripted [Inr (Response None ''Done.'')],
               sent =
                 [FunctionResponseParts
                    [\<lparr>fr_name = ''array'',
                      fr_response = JObj [(''result'', JArr [JStr ''avocado'', JStr ''lime''])]\<rparr>,
                     \<lparr>fr_name = ''object'',
                      fr_response = JObj [(''result'', JObj [(''title'', JStr ''Guacamole'')])]\<rparr>,
                     \<lparr>fr_name = ''null'', fr_response = JObj [(''result'', JNull)]\<rparr>,
                     \<lparr>fr_name = ''rejects'',
                      fr_response =
                        JObj [(''error'', JStr ''Failed to execute tool: out of avocados'')]\<rparr>,
                     \<lparr>fr_name = ''string'',
                      fr_response = JObj [(''result'', JStr ''Guacamole'')]\<rparr>]]\<rparr>\<rparr>"
    by (simp add: c(3) client_emit_def eventsInOrder_def completionEvent_def kindsBatch_def)
  show ?thesis
    using first calls e e1 f f1 unfolding shape by simp
qed
section \<open>Properties of the tool call handler\<close>

lemma unknown_tool:
  assumes "functionName \<notin> set (map decl_name functionDeclarations)"
  shows "handleToolCall e functionName args a
           = (a, Inr (JStr (''Error: Tool '' @ functionName @ '' is not available.'')))"
proof -
  have "functionName \<noteq> ''search_recipes''" "functionName \<noteq> ''view_recipe''"
    "functionName \<noteq> ''list_recipes''" "functionName \<noteq> ''list_favorites''"
    "functionName \<noteq> ''get_recipe_details''" "functionName \<noteq> ''mark_as_favorite''"
    "functionName \<noteq> ''set_dark_mode''" "functionName \<noteq> ''set_font_size''"
    "functionName \<noteq> ''go_back_to_list''"
    using assms
    by (auto simp: functionDeclarations_def searchRecipesDeclaration_def viewRecipeDeclaration_def
        listRecipesDeclaration_def listFavoritesDeclaration_def getRecipeDetailsDeclaration_def
        markAsFavoriteDeclaration_def setDarkModeDeclaration_def setFontSizeDeclaration_def
        goBackToListDeclaration_def)
  then show ?thesis by (simp add: handleToolCall_def)
qed

text \<open>
  C10. For a name that is none of the nine declared tools, \<open>handleToolCall\<close> resolves
  with the string \<open>Error: Tool <name> is not available.\<close> and leaves the application
  as it was; dispatched by the client, the call gets a part like any other, with that
  string wrapped as its result.
\<close>

theorem unknown_tool_is_reported:
  assumes "functionName \<notin> set (map decl_name functionDeclarations)"
  shows "handleToolCall e functionName args a
           = (a, Inr (JStr (''Error: Tool '' @ functionName @ '' is not available.'')))
       \<and> dispatch (handleToolCall e) [\<lparr>fc_name = functionName, fc_args = args\<rparr>] a
           = (a, [Inr (JStr (''Error: Tool '' @ functionName @ '' is not available.''))])
       \<and> functionResponse \<lparr>fc_name = functionName, fc_args = args\<rparr>
            (snd (handleToolCall e functionName args a))
           = \<lparr>fr_name = functionName,
              fr_response =
                JObj [(''result'',
                       JStr (''Error: Tool '' @ functionName @ '' is not available.''))]\<rparr>
       \<and> length functionDeclarations = 9"
  using unknown_tool[OF assms]
  by (simp add: functionResponse_def functionDeclarations_def)

theorem unknown_tool_is_reported_witness:
  "handleToolCall emptyEnv ''order_pizza'' (JObj []) loadedApp
     = (loadedApp, Inr (JStr ''Error: Tool order_pizza is not available.''))"
proof -
  have "''order_pizza'' \<notin> set (map decl_name functionDeclarations)"
    by (simp add: functionDeclarations_def searchRecipesDeclaration_def viewRecipeDeclaration_def
        listRecipesDeclaration_def listFavoritesDeclaration_def getRecipeDetailsDeclaration_def
        markAsFavoriteDeclaration_def setDarkModeDeclaration_def setFontSizeDeclaration_def
        goBackToListDeclaration_def)
  from unknown_tool_is_reported[OF this, of emptyEnv "JObj []" loadedApp]
  show ?thesis by simp
qed
section \<open>Properties of the agent orchestrator\<close>

lemma agent_fields [simp]:
  "ttsService (earcon call ag) = ttsService ag"
  "ttsService (showCaption caption ms ag) = ttsService ag"
  "ttsService (agent_updateState ups ag) = ttsService ag"
  "store (earcon call ag) = store ag"
  "store (showCaption caption ms ag) = store ag"
  "store (agent_updateState ups ag) = updateState ups (store ag)"
  "clients (earcon call ag) = clients ag"
  "clients (showCaption caption ms ag) = clients ag"
  "clients (agent_updateState ups ag) = clients ag"
  "agentApiKey (earcon call ag) = agentApiKey ag"
  "agentApiKey (showCaption caption ms ag) = agentApiKey ag"
  "agentApiKey (agent_updateState ups ag) = agentApiKey ag"
  "nextRef (earcon call ag) = nextRef ag"
  "nextRef (showCaption caption ms ag) = nextRef ag"
  "nextRef (agent_updateState ups ag) = nextRef ag"
  by (simp_all add: earcon_def showCaption_def agent_updateState_def)

lemma handleGeminiError_fields [simp]:
  "ttsService (handleGeminiError message ag) = ttsService ag"
  "clients (handleGeminiError message ag) = clients ag"
  by (simp_all add: handleGeminiError_def)


text \<open>
  C1. The enabling branch when \<open>model.startChat\<close> throws. \<open>initializeChat\<close> catches
  the error and emits it, so the \<open>catch\<close> block of the toggle handler is not entered:
  once the greeting has been spoken the shared state says the agent is enabled, it holds
  the client whose chat was never opened, and \<open>lastError\<close> is cleared again.
\<close>

theorem failed_session_open_leaves_agent_enabled:
  assumes "\<not> truthy (getState (store ag) IsAgentEnabled)"
    and "agentApiKey ag = Some (k # ks)"
    and "constructorThrows w = None" and "startChatThrows w = Some error"
    and "synth (ttsService ag)" and "voicesLoadedPromise (ttsService ag) = Resolved ()"
    and "\<And>i. utteranceFates w i = Ends"
  shows "getState (store (handleAgentToggleClick w ag)) IsAgentEnabled = VBool True
       \<and> getState (store (handleAgentToggleClick w ag)) GeminiClient = VRef (nextRef ag)
       \<and> getState (store (handleAgentToggleClick w ag)) LastError = VNull
       \<and> (\<exists>client. (nextRef ag, client) \<in> set (clients (handleAgentToggleClick w ag))
              \<and> chat client = None)"
proof -
  define ag1 where "ag1 = earcon PlayEnableEarcon
                        (showCaption ''Initializing Agent...'' (Some 2000)
                          (earcon PlayEnableEarcon
                            (showCaption ''Initializing Agent...'' (Some 2000) ag)))"
  define client where "client = (newGeminiClient (languageModel w)
                                         (Some (handleToolCall (toolEnv w))) (eventLoop w))
                                        \<lparr>subscribed := True\<rparr>"
  define client1 where "client1 = initializeChat (startChatThrows w) [] client"
  define ag2 where "ag2 = deliverAll w (emitted_events client1)
                                     (ag1\<lparr>clients := clients ag1 @ [(nextRef ag1, client1)],
                                          nextRef := Suc (nextRef ag1)\<rparr>)"
  define ag3 where "ag3 = agent_updateState
                                     [(IsAgentEnabled, VBool True), (GeminiClient, VRef (nextRef ag1)),
                                      (LastError, VNull)] ag2"
  have c1: "chat client1 = None"
    "emitted_events client1 = [Error ''Failed to initialize chat session.'' (Some error)]"
    by (simp_all add: client1_def client_def initializeChat_def assms(4) newGeminiClient_def
        client_emit_def)
  have ag2: "ag2 = handleGeminiError ''Failed to initialize chat session.''
                     (ag1\<lparr>clients := clients ag1 @ [(nextRef ag1, client1)],
                          nextRef := Suc (nextRef ag1)\<rparr>)"
    by (simp add: ag2_def c1)
  have tts3: "ttsService ag3 = ttsService ag"
    by (simp add: ag3_def ag2 ag1_def)
  obtain chunks unmatched where split: "splitByPunctuation GREETING_MESSAGE = (chunks, unmatched)"
    by (cases "splitByPunctuation GREETING_MESSAGE")
  have resolved: "snd (speak (utteranceFates w) GREETING_MESSAGE (ttsService ag3)) = Resolved ()"
    using speak_all_end[OF _ _ assms(7) split, of "ttsService ag3"] assms(5,6) tts3 by simp
  obtain tts where sp: "speak (utteranceFates w) GREETING_MESSAGE (ttsService ag3) = (tts, Resolved ())"
    using resolved by (cases "speak (utteranceFates w) GREETING_MESSAGE (ttsService ag3)") auto
  have key: "agentApiKey ag1 = Some (k # ks)" by (simp add: ag1_def assms(2))
  have run: "handleAgentToggleClick w ag = ag3\<lparr>ttsService := tts\<rparr>"
    using assms(1,3) key sp
    unfolding handleAgentToggleClick_def Let_def
    by (simp add: ag1_def[symmetric] client_def[symmetric] client1_def[symmetric]
        ag2_def[symmetric] ag3_def[symmetric])
  have ref: "nextRef ag1 = nextRef ag" by (simp add: ag1_def)
  have "(nextRef ag, client1) \<in> set (clients ag3)"
    by (simp add: ag3_def ag2 ref)
  then show ?thesis
    using c1(1) by (auto simp: run ag3_def getState_def updateState_def Let_def ref)
qed

theorem failed_session_open_leaves_agent_enabled_witness:
  "getState (store (handleAgentToggleClick failingWorld (initializedAgent ''key''))) IsAgentEnabled
     = VBool True
   \<and> getState (store (handleAgentToggleClick failingWorld (initializedAgent ''key''))) GeminiClient
     = VRef 2
   \<and> getState (store (handleAgentToggleClick failingWorld (initializedAgent ''key''))) LastError
     = VNull"
proof -
  have a: "\<not> truthy (getState (store (initializedAgent ''key'')) IsAgentEnabled)"
    by (simp add: initializedAgent_def getState_def updateState_def Let_def initialStore_def
        defaultState_def)
  have b: "agentApiKey (initializedAgent ''key'') = Some (CHR ''k'' # ''ey'')"
    by (simp add: initializedAgent_def)
  have c: "constructorThrows failingWorld = None"
    and d: "startChatThrows failingWorld = Some (ErrorObject ''Error'' ''startChat failed'')"
    and g: "\<And>i. utteranceFates failingWorld i = Ends"
    by (simp_all add: failingWorld_def)
  have e: "synth (ttsService (initializedAgent ''key''))"
    and f: "voicesLoadedPromise (ttsService (initializedAgent ''key'')) = Resolved ()"
    and n: "nextRef (initializedAgent ''key'') = 2"
    by (simp_all add: initializedAgent_def newTextToSpeechService_def)
  from failed_session_open_leaves_agent_enabled[OF a b c d e f g]
  show ?thesis by (simp add: n)
qed
end
